theory Spec2Isabelle
  imports Main "HOL-Library.Word"
begin

section \<open>JavaScript values used by the reader\<close>

text \<open>
  A \<^verbatim>\<open>Buffer\<close> and a \<^verbatim>\<open>number[]\<close> of command bytes are lists of bytes. A JavaScript
  string is a list of UTF-16 code units: \<^verbatim>\<open>length\<close>, \<^verbatim>\<open>slice\<close>, \<^verbatim>\<open>substring\<close>,
  \<^verbatim>\<open>split\<close> and \<^verbatim>\<open>trim\<close> all count code units.
\<close>

type_synonym byte = "8 word"
type_synonym buffer = "byte list"
type_synonym jschar = "16 word"
type_synonym jsstring = "jschar list"

text \<open>String literals of the source that are plain ASCII.\<close>

definition ascii :: "string \<Rightarrow> jsstring" where
  "ascii s = map of_char s"

text \<open>
  A thrown value: an \<^verbatim>\<open>Error\<close> with its message, or anything else (a rejected promise
  of the transport can carry any value), kept with its \<^verbatim>\<open>String(...)\<close> rendering.
\<close>

datatype thrown = Error jsstring | NonError jsstring

text \<open>A number is NaN or, for the values that occur here, an integer.\<close>

datatype jsnum = NaN | Num int

subsection \<open>String operations\<close>

text \<open>
  \<^verbatim>\<open>String.prototype.trim\<close> removes WhiteSpace and LineTerminator code units from both
  ends.
\<close>

definition isWhiteSpace :: "jschar \<Rightarrow> bool" where
  "isWhiteSpace c \<longleftrightarrow>
     c = 0x09 \<or> c = 0x0A \<or> c = 0x0B \<or> c = 0x0C \<or> c = 0x0D \<or> c = 0x20 \<or> c = 0xA0
     \<or> c = 0x1680 \<or> (0x2000 \<le> c \<and> c \<le> 0x200A) \<or> c = 0x2028 \<or> c = 0x2029
     \<or> c = 0x202F \<or> c = 0x205F \<or> c = 0x3000 \<or> c = 0xFEFF"

definition trimStart :: "jsstring \<Rightarrow> jsstring" where
  "trimStart s = dropWhile isWhiteSpace s"

definition trim :: "jsstring \<Rightarrow> jsstring" where
  "trim s = rev (dropWhile isWhiteSpace (rev (dropWhile isWhiteSpace s)))"

text \<open>
  \<^verbatim>\<open>s.slice(a, b)\<close> and \<^verbatim>\<open>s.substring(a, b)\<close> for literal bounds \<open>0 \<le> a \<le> b\<close> (the only
  form the converters use): both clamp the bounds to the length.
\<close>

definition slice :: "nat \<Rightarrow> nat \<Rightarrow> 'a list \<Rightarrow> 'a list" where
  "slice a b s = take (b - a) (drop a s)"

definition substring :: "nat \<Rightarrow> nat \<Rightarrow> 'a list \<Rightarrow> 'a list" where
  "substring a b s = take (b - a) (drop a s)"

text \<open>\<^verbatim>\<open>x.slice(0, -k)\<close> on a string or a Buffer: everything but the last \<open>k\<close> elements.\<close>

definition sliceEnd :: "nat \<Rightarrow> 'a list \<Rightarrow> 'a list" where
  "sliceEnd k s = take (length s - k) s"

text \<open>\<^verbatim>\<open>s.split(d)\<close> for a one-unit separator: the empty string gives one empty token.\<close>

fun split :: "'a \<Rightarrow> 'a list \<Rightarrow> 'a list list" where
  "split d [] = [[]]"
| "split d (c # cs) =
     (if c = d then [] # split d cs
      else (case split d cs of [] \<Rightarrow> [[c]] | t # ts \<Rightarrow> (c # t) # ts))"

text \<open>\<^verbatim>\<open>parts.join(sep)\<close>.\<close>

fun join :: "'a list \<Rightarrow> 'a list list \<Rightarrow> 'a list" where
  "join sep [] = []"
| "join sep [p] = p"
| "join sep (p # q # ps) = p @ sep @ join sep (q # ps)"

subsection \<open>Numbers and strings\<close>

text \<open>The value of a code unit as a digit of \<^verbatim>\<open>parseInt\<close>: 0-9, a-z and A-Z.\<close>

definition digitValue :: "jschar \<Rightarrow> nat option" where
  "digitValue c =
     (if 0x30 \<le> c \<and> c \<le> 0x39 then Some (unat c - 0x30)
      else if 0x61 \<le> c \<and> c \<le> 0x7A then Some (unat c - 0x61 + 10)
      else if 0x41 \<le> c \<and> c \<le> 0x5A then Some (unat c - 0x41 + 10)
      else None)"

definition isRadixDigit :: "nat \<Rightarrow> jschar \<Rightarrow> bool" where
  "isRadixDigit R c = (case digitValue c of None \<Rightarrow> False | Some d \<Rightarrow> d < R)"

definition radixValue :: "nat \<Rightarrow> jsstring \<Rightarrow> int" where
  "radixValue R Z = foldl (\<lambda>a c. int R * a + int (the (digitValue c))) 0 Z"

text \<open>
  \<^verbatim>\<open>parseInt(string, radix)\<close> as ECMAScript defines it: leading white space is skipped,
  one sign is read, a radix of \<^verbatim>\<open>undefined\<close> (here \<open>None\<close>) or 0 means 10 unless the text
  starts with \<^verbatim>\<open>0x\<close>/\<^verbatim>\<open>0X\<close>, which is stripped for radix 16 too; the longest prefix of
  digits is read and an empty one gives NaN. The result is exact for the short texts
  the converters pass (four code units).
\<close>

definition parseInt :: "jsstring \<Rightarrow> nat option \<Rightarrow> jsnum" where
  "parseInt string radix =
     (let S = trimStart string;
          sign = (if S \<noteq> [] \<and> hd S = 0x2D then - 1 else 1 :: int);
          S = (if S \<noteq> [] \<and> (hd S = 0x2B \<or> hd S = 0x2D) then tl S else S);
          R = (case radix of None \<Rightarrow> 0 | Some r \<Rightarrow> r)
      in if R \<noteq> 0 \<and> (R < 2 \<or> 36 < R) then NaN
         else
           let stripPrefix = (R = 0 \<or> R = 16);
               R = (if R = 0 then 10 else R);
               hex = (stripPrefix \<and> (take 2 S = [0x30, 0x78] \<or> take 2 S = [0x30, 0x58]));
               S = (if hex then drop 2 S else S);
               R = (if hex then 16 else R);
               Z = takeWhile (isRadixDigit R) S
           in if Z = [] then NaN else Num (sign * radixValue R Z))"

text \<open>\<^verbatim>\<open>a - b\<close> on numbers: NaN is absorbing.\<close>

fun numSub :: "jsnum \<Rightarrow> int \<Rightarrow> jsnum" where
  "numSub NaN b = NaN"
| "numSub (Num a) b = Num (a - b)"

text \<open>The decimal digits of a natural number, most significant first.\<close>

fun natToString :: "nat \<Rightarrow> jsstring" where
  "natToString n =
     (if n < 10 then [of_nat (0x30 + n)]
      else natToString (n div 10) @ [of_nat (0x30 + n mod 10)])"

declare natToString.simps [simp del]

text \<open>A number inside a template literal: \<^verbatim>\<open>`${n}`\<close>.\<close>

fun numToString :: "jsnum \<Rightarrow> jsstring" where
  "numToString NaN = ascii ''NaN''"
| "numToString (Num i) =
     (if i < 0 then 0x2D # natToString (nat (- i)) else natToString (nat i))"

section \<open>Date conversion\<close>

text \<open>
  \<^verbatim>\<open>PersonalApplet.convertBuddhistToGregorianDate\<close>: throws unless the text has
  eight code units; the year is read with radix 10.
\<close>

definition convertBuddhistToGregorianDate :: "jsstring \<Rightarrow> thrown + jsstring" where
  "convertBuddhistToGregorianDate buddhistDateStr =
     (if length buddhistDateStr \<noteq> 8
      then Inl (Error (ascii ''Invalid date format: '' @ buddhistDateStr
                       @ ascii ''. Expected YYYYMMDD.''))
      else
        let buddhistYear = parseInt (slice 0 4 buddhistDateStr) (Some 10);
            month = slice 4 6 buddhistDateStr;
            day = slice 6 8 buddhistDateStr;
            gregorianYear = numSub buddhistYear 543
        in Inr (numToString gregorianYear @ ascii ''-'' @ month @ ascii ''-'' @ day))"

text \<open>
  \<^verbatim>\<open>NhsoApplet.convertBuddhistDate\<close>: the empty string unless the text has eight code
  units; the year is read without a radix. Nothing inside its \<^verbatim>\<open>try\<close> block can throw,
  so the \<^verbatim>\<open>catch\<close> branch has no counterpart here.
\<close>

definition convertBuddhistDate :: "jsstring \<Rightarrow> jsstring" where
  "convertBuddhistDate buddhistDate =
     (if buddhistDate = [] \<or> length buddhistDate \<noteq> 8 then []
      else
        let year = numSub (parseInt (substring 0 4 buddhistDate) None) 543;
            month = substring 4 6 buddhistDate;
            day = substring 6 8 buddhistDate
        in numToString year @ ascii ''-'' @ month @ ascii ''-'' @ day)"

text \<open>
  What the specification calls a numeric string, and the integer its digits denote.
\<close>

definition isDecimalDigit :: "jschar \<Rightarrow> bool" where
  "isDecimalDigit c \<longleftrightarrow> 0x30 \<le> c \<and> c \<le> 0x39"

definition decimalValue :: "jsstring \<Rightarrow> int" where
  "decimalValue s = foldl (\<lambda>a c. 10 * a + (uint c - 48)) 0 s"


section \<open>The card and the two-phase read\<close>

text \<open>
  The card handle is the transport's object: the reader only calls
  \<^verbatim>\<open>issueCommand(bytes)\<close>, which answers with a Buffer or rejects. The card has a state of
  its own that every command may change. The world a read cycle runs in is that state
  and the list of the commands issued so far.
\<close>

type_synonym 's card = "'s \<Rightarrow> byte list \<Rightarrow> (thrown + buffer) \<times> 's"

record 's world =
  cardState :: 's
  issued :: "byte list list"

text \<open>An asynchronous computation: it resolves with a value or rejects, and moves the world.\<close>

type_synonym ('s, 'a) io = "'s world \<Rightarrow> (thrown + 'a) \<times> 's world"

definition resolve :: "'a \<Rightarrow> ('s, 'a) io" where
  "resolve x w = (Inr x, w)"

definition reject :: "thrown \<Rightarrow> ('s, 'a) io" where
  "reject e w = (Inl e, w)"

text \<open>\<^verbatim>\<open>const x = await m; ...\<close>: a rejection of \<open>m\<close> skips what follows.\<close>

definition andThen :: "('s, 'a) io \<Rightarrow> ('a \<Rightarrow> ('s, 'b) io) \<Rightarrow> ('s, 'b) io" where
  "andThen m f w = (case m w of (Inl e, w') \<Rightarrow> (Inl e, w') | (Inr x, w') \<Rightarrow> f x w')"

text \<open>\<^verbatim>\<open>try { m } catch (error) { h }\<close>.\<close>

definition tryCatch :: "('s, 'a) io \<Rightarrow> (thrown \<Rightarrow> ('s, 'a) io) \<Rightarrow> ('s, 'a) io" where
  "tryCatch m h w = (case m w of (Inl e, w') \<Rightarrow> h e w' | (Inr x, w') \<Rightarrow> (Inr x, w'))"

text \<open>A synchronous function that may throw, called inside an asynchronous one.\<close>

definition liftResult :: "thrown + 'a \<Rightarrow> ('s, 'a) io" where
  "liftResult r w = (r, w)"

definition issueCommand :: "'s card \<Rightarrow> byte list \<Rightarrow> ('s, buffer) io" where
  "issueCommand card' bytes w =
     (case card' (cardState w) bytes of
        (r, s') \<Rightarrow> (r, w\<lparr>cardState := s', issued := issued w @ [bytes]\<rparr>))"

text \<open>\<^verbatim>\<open>error instanceof Error ? error.message : 'Unknown error'\<close>.\<close>

fun errorMessage :: "thrown \<Rightarrow> jsstring" where
  "errorMessage (Error m) = m"
| "errorMessage (NonError v) = ascii ''Unknown error''"

text \<open>\<^verbatim>\<open>command.slice(-1)\<close>: the last byte, as a list.\<close>

definition sliceLast :: "'a list \<Rightarrow> 'a list" where
  "sliceLast command = drop (length command - 1) command"

text \<open>
  \<^verbatim>\<open>getData\<close> of \<^verbatim>\<open>utils/reader.ts\<close>: the field's command, then the request prefix
  followed by the command's last byte; only the second answer is returned. (Its
  callers always pass \<^verbatim>\<open>req\<close>.)
\<close>

definition getData :: "'s card \<Rightarrow> byte list \<Rightarrow> byte list \<Rightarrow> ('s, buffer) io" where
  "getData card' command req =
     andThen (issueCommand card' command) (\<lambda>data.
     andThen (issueCommand card' (req @ sliceLast command)) (\<lambda>data.
     resolve data))"

text \<open>
  The collaborators the reader takes from outside: \<^verbatim>\<open>Buffer.prototype.toString()\<close>
  (UTF-8), \<^verbatim>\<open>legacy.decode(_, 'tis620')\<close>, which the repository's declaration types as
  Buffer to Buffer, and \<^verbatim>\<open>hex2imagebase64\<close>.
\<close>

record collaborators =
  bufferToString :: "buffer \<Rightarrow> jsstring"
  legacyDecode :: "buffer \<Rightarrow> buffer"
  hex2imagebase64 :: "jsstring \<Rightarrow> jsstring"

text \<open>\<^verbatim>\<open>buffer.toString('hex')\<close>: two lower-case hexadecimal digits for each byte.\<close>

definition hexDigit :: "nat \<Rightarrow> jschar" where
  "hexDigit d = (if d < 10 then of_nat (0x30 + d) else of_nat (0x61 + (d - 10)))"

definition toHex :: "buffer \<Rightarrow> jsstring" where
  "toHex b = concat (map (\<lambda>x. [hexDigit (unat x div 16), hexDigit (unat x mod 16)]) b)"

text \<open>\<^verbatim>\<open>getLaser\<close> of \<^verbatim>\<open>utils/reader.ts\<close>.\<close>

definition getLaser :: "collaborators \<Rightarrow> 's card \<Rightarrow> byte list \<Rightarrow> ('s, jsstring) io" where
  "getLaser ext card' req =
     andThen (issueCommand card'
                [0x00, 0xa4, 0x04, 0x00, 0x08, 0xa0, 0x00, 0x00, 0x00, 0x84, 0x06, 0x00, 0x02])
       (\<lambda>_.
     let command = [0x80, 0x00, 0x00, 0x00, 0x07] in
     andThen (issueCommand card' command) (\<lambda>data.
     andThen (issueCommand card' (req @ [0x10])) (\<lambda>data.
     resolve (trim (filter (\<lambda>c. c \<noteq> 0) (bufferToString ext (sliceEnd 2 data)))))))"

section \<open>Command catalogue\<close>

definition person_SELECT :: "byte list" where
  "person_SELECT = [0x00, 0xa4, 0x04, 0x00, 0x08]"
definition THAI_CARD :: "byte list" where
  "THAI_CARD = [0xa0, 0x00, 0x00, 0x00, 0x54, 0x48, 0x00, 0x01]"
definition CMD_CID :: "byte list" where
  "CMD_CID = [0x80, 0xb0, 0x00, 0x04, 0x02, 0x00, 0x0d]"
definition CMD_THFULLNAME :: "byte list" where
  "CMD_THFULLNAME = [0x80, 0xb0, 0x00, 0x11, 0x02, 0x00, 0x64]"
definition CMD_ENFULLNAME :: "byte list" where
  "CMD_ENFULLNAME = [0x80, 0xb0, 0x00, 0x75, 0x02, 0x00, 0x64]"
definition CMD_BIRTH :: "byte list" where
  "CMD_BIRTH = [0x80, 0xb0, 0x00, 0xd9, 0x02, 0x00, 0x08]"
definition CMD_GENDER :: "byte list" where
  "CMD_GENDER = [0x80, 0xb0, 0x00, 0xe1, 0x02, 0x00, 0x01]"
definition CMD_ISSUER :: "byte list" where
  "CMD_ISSUER = [0x80, 0xb0, 0x00, 0xf6, 0x02, 0x00, 0x64]"
definition CMD_ISSUE :: "byte list" where
  "CMD_ISSUE = [0x80, 0xb0, 0x01, 0x67, 0x02, 0x00, 0x08]"
definition CMD_EXPIRE :: "byte list" where
  "CMD_EXPIRE = [0x80, 0xb0, 0x01, 0x6f, 0x02, 0x00, 0x08]"
definition CMD_ADDRESS :: "byte list" where
  "CMD_ADDRESS = [0x80, 0xb0, 0x15, 0x79, 0x02, 0x00, 0x64]"
definition CMD_PHOTO1 :: "byte list" where
  "CMD_PHOTO1 = [0x80, 0xb0, 0x01, 0x7b, 0x02, 0x00, 0xff]"
definition CMD_PHOTO2 :: "byte list" where
  "CMD_PHOTO2 = [0x80, 0xb0, 0x02, 0x7a, 0x02, 0x00, 0xff]"
definition CMD_PHOTO3 :: "byte list" where
  "CMD_PHOTO3 = [0x80, 0xb0, 0x03, 0x79, 0x02, 0x00, 0xff]"
definition CMD_PHOTO4 :: "byte list" where
  "CMD_PHOTO4 = [0x80, 0xb0, 0x04, 0x78, 0x02, 0x00, 0xff]"
definition CMD_PHOTO5 :: "byte list" where
  "CMD_PHOTO5 = [0x80, 0xb0, 0x05, 0x77, 0x02, 0x00, 0xff]"
definition CMD_PHOTO6 :: "byte list" where
  "CMD_PHOTO6 = [0x80, 0xb0, 0x06, 0x76, 0x02, 0x00, 0xff]"
definition CMD_PHOTO7 :: "byte list" where
  "CMD_PHOTO7 = [0x80, 0xb0, 0x07, 0x75, 0x02, 0x00, 0xff]"
definition CMD_PHOTO8 :: "byte list" where
  "CMD_PHOTO8 = [0x80, 0xb0, 0x08, 0x74, 0x02, 0x00, 0xff]"
definition CMD_PHOTO9 :: "byte list" where
  "CMD_PHOTO9 = [0x80, 0xb0, 0x09, 0x73, 0x02, 0x00, 0xff]"
definition CMD_PHOTO10 :: "byte list" where
  "CMD_PHOTO10 = [0x80, 0xb0, 0x0a, 0x72, 0x02, 0x00, 0xff]"
definition CMD_PHOTO11 :: "byte list" where
  "CMD_PHOTO11 = [0x80, 0xb0, 0x0b, 0x71, 0x02, 0x00, 0xff]"
definition CMD_PHOTO12 :: "byte list" where
  "CMD_PHOTO12 = [0x80, 0xb0, 0x0c, 0x70, 0x02, 0x00, 0xff]"
definition CMD_PHOTO13 :: "byte list" where
  "CMD_PHOTO13 = [0x80, 0xb0, 0x0d, 0x6f, 0x02, 0x00, 0xff]"
definition CMD_PHOTO14 :: "byte list" where
  "CMD_PHOTO14 = [0x80, 0xb0, 0x0e, 0x6e, 0x02, 0x00, 0xff]"
definition CMD_PHOTO15 :: "byte list" where
  "CMD_PHOTO15 = [0x80, 0xb0, 0x0f, 0x6d, 0x02, 0x00, 0xff]"
definition CMD_PHOTO16 :: "byte list" where
  "CMD_PHOTO16 = [0x80, 0xb0, 0x10, 0x6c, 0x02, 0x00, 0xff]"
definition CMD_PHOTO17 :: "byte list" where
  "CMD_PHOTO17 = [0x80, 0xb0, 0x11, 0x6b, 0x02, 0x00, 0xff]"
definition CMD_PHOTO18 :: "byte list" where
  "CMD_PHOTO18 = [0x80, 0xb0, 0x12, 0x6a, 0x02, 0x00, 0xff]"
definition CMD_PHOTO19 :: "byte list" where
  "CMD_PHOTO19 = [0x80, 0xb0, 0x13, 0x69, 0x02, 0x00, 0xff]"
definition CMD_PHOTO20 :: "byte list" where
  "CMD_PHOTO20 = [0x80, 0xb0, 0x14, 0x68, 0x02, 0x00, 0xff]"

text \<open>
  \<^verbatim>\<open>PersonalApplet.PHOTO_COMMANDS\<close>, each name already looked up in \<^verbatim>\<open>apduPerson\<close>.
\<close>

definition PHOTO_COMMANDS :: "byte list list" where
  "PHOTO_COMMANDS =
     [CMD_PHOTO1, CMD_PHOTO2, CMD_PHOTO3, CMD_PHOTO4, CMD_PHOTO5,
      CMD_PHOTO6, CMD_PHOTO7, CMD_PHOTO8, CMD_PHOTO9, CMD_PHOTO10,
      CMD_PHOTO11, CMD_PHOTO12, CMD_PHOTO13, CMD_PHOTO14, CMD_PHOTO15,
      CMD_PHOTO16, CMD_PHOTO17, CMD_PHOTO18, CMD_PHOTO19, CMD_PHOTO20]"

definition nhso_SELECT :: "byte list" where
  "nhso_SELECT =
     [0x00, 0xa4, 0x04, 0x00, 0x08, 0xa0, 0x00, 0x00, 0x00, 0x54, 0x48, 0x00, 0x83]"
definition CMD_MAIN_INSCL :: "byte list" where
  "CMD_MAIN_INSCL = [0x80, 0xb0, 0x00, 0x04, 0x02, 0x00, 0x3c]"
definition CMD_SUB_INSCL :: "byte list" where
  "CMD_SUB_INSCL = [0x80, 0xb0, 0x00, 0x40, 0x02, 0x00, 0x64]"
definition CMD_MAIN_HOSPITAL_NAME :: "byte list" where
  "CMD_MAIN_HOSPITAL_NAME = [0x80, 0xb0, 0x00, 0xa4, 0x02, 0x00, 0x50]"
definition CMD_SUB_HOSPITAL_NAME :: "byte list" where
  "CMD_SUB_HOSPITAL_NAME = [0x80, 0xb0, 0x00, 0xf4, 0x02, 0x00, 0x50]"
definition CMD_PAID_TYPE :: "byte list" where
  "CMD_PAID_TYPE = [0x80, 0xb0, 0x01, 0x44, 0x02, 0x00, 0x01]"
definition CMD_ISSUE_DATE :: "byte list" where
  "CMD_ISSUE_DATE = [0x80, 0xb0, 0x01, 0x45, 0x02, 0x00, 0x08]"
definition CMD_EXPIRE_DATE :: "byte list" where
  "CMD_EXPIRE_DATE = [0x80, 0xb0, 0x01, 0x4d, 0x02, 0x00, 0x08]"
definition CMD_UPDATE_DATE :: "byte list" where
  "CMD_UPDATE_DATE = [0x80, 0xb0, 0x01, 0x55, 0x02, 0x00, 0x08]"
definition CMD_CHANGE_HOSPITAL_AMOUNT :: "byte list" where
  "CMD_CHANGE_HOSPITAL_AMOUNT = [0x80, 0xb0, 0x01, 0x5d, 0x02, 0x00, 0x01]"

section \<open>Card data\<close>

text \<open>
  \<^verbatim>\<open>NhsoData\<close> and \<^verbatim>\<open>ThaiIdCardData\<close>: every field is optional, \<open>None\<close> is an absent
  key. The insurance record's own \<^verbatim>\<open>issueDate\<close> and \<^verbatim>\<open>expireDate\<close> carry a prefix here.
\<close>

record NhsoData =
  mainInscl :: "jsstring option"
  subInscl :: "jsstring option"
  mainHospitalName :: "jsstring option"
  subHospitalName :: "jsstring option"
  paidType :: "jsstring option"
  nhsoIssueDate :: "jsstring option"
  nhsoExpireDate :: "jsstring option"
  updateDate :: "jsstring option"
  changeHospitalAmount :: "jsstring option"

record ThaiIdCardData =
  cid :: "jsstring option"
  name :: "jsstring option"
  nameEn :: "jsstring option"
  dob :: "jsstring option"
  gender :: "jsstring option"
  issuer :: "jsstring option"
  issueDate :: "jsstring option"
  expireDate :: "jsstring option"
  address :: "jsstring option"
  photo :: "jsstring option"
  nhso :: "NhsoData option"
  laserId :: "jsstring option"

definition emptyNhsoData :: NhsoData where
  "emptyNhsoData =
     \<lparr>mainInscl = None, subInscl = None, mainHospitalName = None, subHospitalName = None,
      paidType = None, nhsoIssueDate = None, nhsoExpireDate = None, updateDate = None,
      changeHospitalAmount = None\<rparr>"

definition emptyData :: ThaiIdCardData where
  "emptyData =
     \<lparr>cid = None, name = None, nameEn = None, dob = None, gender = None, issuer = None,
      issueDate = None, expireDate = None, address = None, photo = None, nhso = None,
      laserId = None\<rparr>"

text \<open>\<^verbatim>\<open>{ ...a, ...b }\<close>: the keys present in \<open>b\<close> win.\<close>

definition orElse :: "'a option \<Rightarrow> 'a option \<Rightarrow> 'a option" where
  "orElse b a = (case b of None \<Rightarrow> a | Some v \<Rightarrow> Some v)"

definition spread :: "ThaiIdCardData \<Rightarrow> ThaiIdCardData \<Rightarrow> ThaiIdCardData" where
  "spread a b =
     \<lparr>cid = orElse (cid b) (cid a), name = orElse (name b) (name a),
      nameEn = orElse (nameEn b) (nameEn a), dob = orElse (dob b) (dob a),
      gender = orElse (gender b) (gender a), issuer = orElse (issuer b) (issuer a),
      issueDate = orElse (issueDate b) (issueDate a),
      expireDate = orElse (expireDate b) (expireDate a),
      address = orElse (address b) (address a), photo = orElse (photo b) (photo a),
      nhso = orElse (nhso b) (nhso a), laserId = orElse (laserId b) (laserId a)\<rparr>"

datatype QueryField =
  q_cid | q_name | q_nameEn | q_dob | q_gender | q_issuer | q_issueDate | q_expireDate
  | q_address | q_photo | q_nhso | q_laserId

section \<open>Personal applet\<close>

record NameComponents =
  prefix :: jsstring
  firstname :: jsstring
  middlename :: jsstring
  lastname :: jsstring
  fullname :: jsstring

record AddressComponents =
  houseNo :: jsstring
  moo :: jsstring
  soi :: jsstring
  street :: jsstring
  subdistrict :: jsstring
  district :: jsstring
  province :: jsstring
  fullAddress :: jsstring

text \<open>\<^verbatim>\<open>array[i]\<close>: \<^verbatim>\<open>undefined\<close> (here \<open>None\<close>) outside the array, also for a negative index.\<close>

definition elementAt :: "'a list \<Rightarrow> int \<Rightarrow> 'a option" where
  "elementAt xs i = (if 0 \<le> i \<and> i < int (length xs) then Some (xs ! nat i) else None)"

text \<open>\<^verbatim>\<open>array[i]?.trim() || ''\<close>.\<close>

definition trimOrEmpty :: "jsstring option \<Rightarrow> jsstring" where
  "trimOrEmpty part = (case part of None \<Rightarrow> [] | Some s \<Rightarrow> if trim s = [] then [] else trim s)"

text \<open>A parameter with the default \<^verbatim>\<open>''\<close>.\<close>

definition orEmpty :: "jsstring option \<Rightarrow> jsstring" where
  "orEmpty part = (case part of None \<Rightarrow> [] | Some s \<Rightarrow> s)"

definition startsWith :: "jsstring \<Rightarrow> jsstring \<Rightarrow> bool" where
  "startsWith s p \<longleftrightarrow> take (length p) s = p"

definition initializeCard :: "'s card \<Rightarrow> ('s, unit) io" where
  "initializeCard card' =
     andThen (issueCommand card' (person_SELECT @ THAI_CARD)) (\<lambda>_. resolve ())"

text \<open>
  \<^verbatim>\<open>createFieldLookup\<close>: an object with the ten personal keys set to false, then every
  queried field set to true.
\<close>

definition createFieldLookup :: "QueryField list \<Rightarrow> (QueryField \<rightharpoonup> bool)" where
  "createFieldLookup queryFields =
     foldl (\<lambda>lookup field. lookup(field \<mapsto> True))
       [q_cid \<mapsto> False, q_name \<mapsto> False, q_nameEn \<mapsto> False, q_dob \<mapsto> False,
        q_gender \<mapsto> False, q_issuer \<mapsto> False, q_issueDate \<mapsto> False,
        q_expireDate \<mapsto> False, q_address \<mapsto> False, q_photo \<mapsto> False]
       queryFields"

text \<open>\<^verbatim>\<open>if (requestedFields.f)\<close>: an absent key is falsy.\<close>

definition truthy :: "bool option \<Rightarrow> bool" where
  "truthy v = (case v of None \<Rightarrow> False | Some b \<Rightarrow> b)"

definition parseNameComponents :: "collaborators \<Rightarrow> buffer \<Rightarrow> NameComponents" where
  "parseNameComponents ext decodedData =
     (let nameArray = split 0x23 (trim (bufferToString ext (sliceEnd 2 decodedData)));
          components =
            \<lparr>prefix = trimOrEmpty (elementAt nameArray 0),
             firstname = trimOrEmpty (elementAt nameArray 1),
             middlename = trimOrEmpty (elementAt nameArray 2),
             lastname = trimOrEmpty (elementAt nameArray 3),
             fullname = []\<rparr>
      in components\<lparr>fullname :=
           trim (join [0x20]
             (filter (\<lambda>part. length part > 0)
                [prefix components, firstname components, middlename components,
                 lastname components]))\<rparr>)"

definition extractMooNumber :: "jsstring option \<Rightarrow> jsstring" where
  "extractMooNumber part =
     (let addressPart = orEmpty part
      in if startsWith addressPart [0x0E2B, 0x0E21, 0x0E39, 0x0E48, 0x0E17, 0x0E35, 0x0E48]
         then trim (drop 7 addressPart) else [])"

definition extractSoiName :: "jsstring option \<Rightarrow> jsstring" where
  "extractSoiName part =
     (let addressPart = orEmpty part
      in if startsWith addressPart [0x0E0B, 0x0E2D, 0x0E22]
         then trim (drop 3 addressPart) else [])"

definition extractSubdistrict :: "jsstring option \<Rightarrow> jsstring" where
  "extractSubdistrict part =
     (let addressPart = orEmpty part
      in if length addressPart \<ge> 4 then trim (drop 4 addressPart) else [])"

definition extractDistrict :: "jsstring option \<Rightarrow> jsstring" where
  "extractDistrict part =
     (let addressPart = orEmpty part
      in if startsWith addressPart [0x0E40, 0x0E02, 0x0E15] then trim (drop 3 addressPart)
         else if length addressPart \<ge> 5 then trim (drop 5 addressPart)
         else [])"

definition extractProvince :: "jsstring option \<Rightarrow> jsstring" where
  "extractProvince part =
     (let addressPart = orEmpty part
      in if length addressPart \<ge> 7 then trim (drop 7 addressPart) else [])"

definition parseAddressComponents :: "jsstring \<Rightarrow> AddressComponents" where
  "parseAddressComponents addressStr =
     (let addressParts = split 0x23 addressStr;
          n = int (length addressParts);
          components =
            \<lparr>houseNo = trimOrEmpty (elementAt addressParts 0),
             moo = extractMooNumber (elementAt addressParts 1),
             soi = extractSoiName (elementAt addressParts 1),
             street = trim (join [0x20] (take (length addressParts - 3 - 2) (drop 2 addressParts))),
             subdistrict = extractSubdistrict (elementAt addressParts (n - 3)),
             district = extractDistrict (elementAt addressParts (n - 2)),
             province = extractProvince (elementAt addressParts (n - 1)),
             fullAddress = []\<rparr>
      in components\<lparr>fullAddress :=
           trim (join [0x20]
             (filter (\<lambda>part. part \<noteq> [] \<and> length (trim part) > 0) addressParts))\<rparr>)"

definition extractCitizenId :: "collaborators \<Rightarrow> 's card \<Rightarrow> byte list \<Rightarrow> ('s, jsstring) io" where
  "extractCitizenId ext card' requestCommand =
     andThen (getData card' CMD_CID requestCommand) (\<lambda>data.
     resolve (trim (bufferToString ext (sliceEnd 2 data))))"

definition extractThaiName :: "collaborators \<Rightarrow> 's card \<Rightarrow> byte list \<Rightarrow> ('s, jsstring) io" where
  "extractThaiName ext card' requestCommand =
     andThen (getData card' CMD_THFULLNAME requestCommand) (\<lambda>data.
     let decodedData = legacyDecode ext data
     in resolve (fullname (parseNameComponents ext decodedData)))"

definition extractEnglishName :: "collaborators \<Rightarrow> 's card \<Rightarrow> byte list \<Rightarrow> ('s, jsstring) io" where
  "extractEnglishName ext card' requestCommand =
     andThen (getData card' CMD_ENFULLNAME requestCommand) (\<lambda>data.
     let decodedData = legacyDecode ext data
     in resolve (fullname (parseNameComponents ext decodedData)))"

definition extractDateOfBirth :: "collaborators \<Rightarrow> 's card \<Rightarrow> byte list \<Rightarrow> ('s, jsstring) io" where
  "extractDateOfBirth ext card' requestCommand =
     andThen (getData card' CMD_BIRTH requestCommand) (\<lambda>data.
     let dateStr = trim (bufferToString ext (sliceEnd 2 data))
     in liftResult (convertBuddhistToGregorianDate dateStr))"

definition extractGender :: "collaborators \<Rightarrow> 's card \<Rightarrow> byte list \<Rightarrow> ('s, jsstring) io" where
  "extractGender ext card' requestCommand =
     andThen (getData card' CMD_GENDER requestCommand) (\<lambda>data.
     resolve (trim (bufferToString ext (sliceEnd 2 data))))"

definition extractIssuer :: "collaborators \<Rightarrow> 's card \<Rightarrow> byte list \<Rightarrow> ('s, jsstring) io" where
  "extractIssuer ext card' requestCommand =
     andThen (getData card' CMD_ISSUER requestCommand) (\<lambda>data.
     resolve (trim (bufferToString ext (sliceEnd 2 (legacyDecode ext data)))))"

definition extractIssueDate :: "collaborators \<Rightarrow> 's card \<Rightarrow> byte list \<Rightarrow> ('s, jsstring) io" where
  "extractIssueDate ext card' requestCommand =
     andThen (getData card' CMD_ISSUE requestCommand) (\<lambda>data.
     let dateStr = trim (bufferToString ext (sliceEnd 2 data))
     in liftResult (convertBuddhistToGregorianDate dateStr))"

definition extractExpireDate :: "collaborators \<Rightarrow> 's card \<Rightarrow> byte list \<Rightarrow> ('s, jsstring) io" where
  "extractExpireDate ext card' requestCommand =
     andThen (getData card' CMD_EXPIRE requestCommand) (\<lambda>data.
     let dateStr = trim (bufferToString ext (sliceEnd 2 data))
     in liftResult (convertBuddhistToGregorianDate dateStr))"

definition extractAddress :: "collaborators \<Rightarrow> 's card \<Rightarrow> byte list \<Rightarrow> ('s, jsstring) io" where
  "extractAddress ext card' requestCommand =
     andThen (getData card' CMD_ADDRESS requestCommand) (\<lambda>data.
     let decodedData = legacyDecode ext data;
         addressStr = trim (bufferToString ext (sliceEnd 2 decodedData))
     in if length addressStr = 0 then resolve []
        else let addressComponents = parseAddressComponents addressStr
             in resolve (fullAddress addressComponents))"

text \<open>
  The loop of \<^verbatim>\<open>extractPhoto\<close> over the photo commands: each answer is rendered in
  hexadecimal, loses its last four digits and is pushed on \<^verbatim>\<open>photoHexParts\<close>.
\<close>

fun readPhotoParts ::
  "'s card \<Rightarrow> byte list \<Rightarrow> byte list list \<Rightarrow> jsstring list \<Rightarrow> ('s, jsstring list) io" where
  "readPhotoParts card' requestCommand [] photoHexParts = resolve photoHexParts"
| "readPhotoParts card' requestCommand (command # rest) photoHexParts =
     andThen (getData card' command requestCommand) (\<lambda>data.
     readPhotoParts card' requestCommand rest (photoHexParts @ [sliceEnd 4 (toHex data)]))"

definition extractPhoto :: "collaborators \<Rightarrow> 's card \<Rightarrow> byte list \<Rightarrow> ('s, jsstring) io" where
  "extractPhoto ext card' requestCommand =
     andThen (readPhotoParts card' requestCommand PHOTO_COMMANDS []) (\<lambda>photoHexParts.
     let photoHex = join [] photoHexParts
     in resolve (hex2imagebase64 ext photoHex))"

text \<open>\<^verbatim>\<open>if (requestedFields.f) extractedData.f = await extract()\<close>.\<close>

definition readIf ::
  "bool \<Rightarrow> ('s, jsstring) io \<Rightarrow> (jsstring \<Rightarrow> ThaiIdCardData \<Rightarrow> ThaiIdCardData)
   \<Rightarrow> ThaiIdCardData \<Rightarrow> ('s, ThaiIdCardData) io" where
  "readIf requested extract assign extractedData =
     (if requested then andThen extract (\<lambda>v. resolve (assign v extractedData))
      else resolve extractedData)"

text \<open>
  \<^verbatim>\<open>PersonalApplet.getInfo(queryFields = ['cid'])\<close>: \<open>None\<close> is a call without the
  argument.
\<close>

definition PersonalApplet_getInfo ::
  "collaborators \<Rightarrow> 's card \<Rightarrow> byte list \<Rightarrow> QueryField list option \<Rightarrow> ('s, ThaiIdCardData) io" where
  "PersonalApplet_getInfo ext card' requestCommand queryFieldsArg =
     (let queryFields = (case queryFieldsArg of None \<Rightarrow> [q_cid] | Some given \<Rightarrow> given) in
      andThen (initializeCard card') (\<lambda>_.
      let requestedFields = createFieldLookup queryFields;
          extractedData = emptyData in
      andThen (readIf (truthy (requestedFields q_cid))
                 (extractCitizenId ext card' requestCommand)
                 (\<lambda>v d. d\<lparr>cid := Some v\<rparr>) extractedData) (\<lambda>extractedData.
      andThen (readIf (truthy (requestedFields q_name))
                 (extractThaiName ext card' requestCommand)
                 (\<lambda>v d. d\<lparr>name := Some v\<rparr>) extractedData) (\<lambda>extractedData.
      andThen (readIf (truthy (requestedFields q_nameEn))
                 (extractEnglishName ext card' requestCommand)
                 (\<lambda>v d. d\<lparr>nameEn := Some v\<rparr>) extractedData) (\<lambda>extractedData.
      andThen (readIf (truthy (requestedFields q_dob))
                 (extractDateOfBirth ext card' requestCommand)
                 (\<lambda>v d. d\<lparr>dob := Some v\<rparr>) extractedData) (\<lambda>extractedData.
      andThen (readIf (truthy (requestedFields q_gender))
                 (extractGender ext card' requestCommand)
                 (\<lambda>v d. d\<lparr>gender := Some v\<rparr>) extractedData) (\<lambda>extractedData.
      andThen (readIf (truthy (requestedFields q_issuer))
                 (extractIssuer ext card' requestCommand)
                 (\<lambda>v d. d\<lparr>issuer := Some v\<rparr>) extractedData) (\<lambda>extractedData.
      andThen (readIf (truthy (requestedFields q_issueDate))
                 (extractIssueDate ext card' requestCommand)
                 (\<lambda>v d. d\<lparr>issueDate := Some v\<rparr>) extractedData) (\<lambda>extractedData.
      andThen (readIf (truthy (requestedFields q_expireDate))
                 (extractExpireDate ext card' requestCommand)
                 (\<lambda>v d. d\<lparr>expireDate := Some v\<rparr>) extractedData) (\<lambda>extractedData.
      andThen (readIf (truthy (requestedFields q_address))
                 (extractAddress ext card' requestCommand)
                 (\<lambda>v d. d\<lparr>address := Some v\<rparr>) extractedData) (\<lambda>extractedData.
      andThen (readIf (truthy (requestedFields q_photo))
                 (extractPhoto ext card' requestCommand)
                 (\<lambda>v d. d\<lparr>photo := Some v\<rparr>) extractedData) (\<lambda>extractedData.
      resolve extractedData))))))))))))"

section \<open>Insurance applet\<close>

definition initializeNhsoCard :: "'s card \<Rightarrow> ('s, unit) io" where
  "initializeNhsoCard card' = andThen (issueCommand card' nhso_SELECT) (\<lambda>_. resolve ())"

text \<open>
  The statements inside the \<^verbatim>\<open>try\<close> block of \<^verbatim>\<open>extractNhsoData\<close>, in their order: each
  is one \<^verbatim>\<open>getData\<close> with a field's command and the assignment of the decoded answer to
  that field of \<^verbatim>\<open>nhsoData\<close>.
\<close>

definition nhsoFieldReads ::
  "collaborators \<Rightarrow> (byte list \<times> (buffer \<Rightarrow> NhsoData \<Rightarrow> NhsoData)) list" where
  "nhsoFieldReads ext =
     [(CMD_MAIN_INSCL, \<lambda>data nhsoData. nhsoData\<lparr>mainInscl :=
          Some (trim (bufferToString ext (sliceEnd 2 (legacyDecode ext data))))\<rparr>),
      (CMD_SUB_INSCL, \<lambda>data nhsoData. nhsoData\<lparr>subInscl :=
          Some (trim (bufferToString ext (sliceEnd 2 (legacyDecode ext data))))\<rparr>),
      (CMD_MAIN_HOSPITAL_NAME, \<lambda>data nhsoData. nhsoData\<lparr>mainHospitalName :=
          Some (trim (bufferToString ext (sliceEnd 2 (legacyDecode ext data))))\<rparr>),
      (CMD_SUB_HOSPITAL_NAME, \<lambda>data nhsoData. nhsoData\<lparr>subHospitalName :=
          Some (trim (bufferToString ext (sliceEnd 2 (legacyDecode ext data))))\<rparr>),
      (CMD_PAID_TYPE, \<lambda>data nhsoData. nhsoData\<lparr>paidType :=
          Some (toHex (sliceEnd 2 data))\<rparr>),
      (CMD_ISSUE_DATE, \<lambda>data nhsoData. nhsoData\<lparr>nhsoIssueDate :=
          Some (convertBuddhistDate (trim (bufferToString ext (sliceEnd 2 data))))\<rparr>),
      (CMD_EXPIRE_DATE, \<lambda>data nhsoData. nhsoData\<lparr>nhsoExpireDate :=
          Some (convertBuddhistDate (trim (bufferToString ext (sliceEnd 2 data))))\<rparr>),
      (CMD_UPDATE_DATE, \<lambda>data nhsoData. nhsoData\<lparr>updateDate :=
          Some (convertBuddhistDate (trim (bufferToString ext (sliceEnd 2 data))))\<rparr>),
      (CMD_CHANGE_HOSPITAL_AMOUNT, \<lambda>data nhsoData. nhsoData\<lparr>changeHospitalAmount :=
          Some (toHex (sliceEnd 2 data))\<rparr>)]"

text \<open>
  Running those statements: one \<^verbatim>\<open>try\<close> block holds them all, so the first rejected
  read leaves the block; the \<^verbatim>\<open>catch\<close> only warns on the console, and \<^verbatim>\<open>nhsoData\<close> keeps
  what was assigned before.
\<close>

fun readFields ::
  "'s card \<Rightarrow> byte list \<Rightarrow> (byte list \<times> (buffer \<Rightarrow> NhsoData \<Rightarrow> NhsoData)) list
   \<Rightarrow> NhsoData \<Rightarrow> 's world \<Rightarrow> NhsoData \<times> 's world" where
  "readFields card' requestCommand [] nhsoData w = (nhsoData, w)"
| "readFields card' requestCommand ((command, assign) # rest) nhsoData w =
     (case getData card' command requestCommand w of
        (Inl error, w') \<Rightarrow> (nhsoData, w')
      | (Inr data, w') \<Rightarrow> readFields card' requestCommand rest (assign data nhsoData) w')"

definition extractNhsoData :: "collaborators \<Rightarrow> 's card \<Rightarrow> byte list \<Rightarrow> ('s, NhsoData) io" where
  "extractNhsoData ext card' requestCommand w =
     (case readFields card' requestCommand (nhsoFieldReads ext) emptyNhsoData w of
        (nhsoData, w') \<Rightarrow> (Inr nhsoData, w'))"

definition NhsoApplet_getInfo :: "collaborators \<Rightarrow> 's card \<Rightarrow> byte list \<Rightarrow> ('s, NhsoData) io" where
  "NhsoApplet_getInfo ext card' requestCommand =
     tryCatch
       (andThen (initializeNhsoCard card') (\<lambda>_.
        andThen (extractNhsoData ext card' requestCommand) (\<lambda>nhsoData.
        resolve nhsoData)))
       (\<lambda>error. reject (Error (ascii ''Failed to read NHSO data: '' @ errorMessage error)))"

section \<open>The reader\<close>

text \<open>
  \<^verbatim>\<open>CardReaderOptions\<close> as the caller gives them (each key may be missing) and as
  \<^verbatim>\<open>validateAndSetOptions\<close> returns them.
\<close>

record CardReaderOptions =
  exitOnReadError_given :: "bool option"
  debug_given :: "bool option"

record RequiredOptions =
  exitOnReadError :: bool
  debug :: bool

datatype eventName =
  device_connected | device_disconnected | card_inserted | card_removed | card_data
  | card_error | card_incorrect

text \<open>
  The \<^verbatim>\<open>data\<close> of a notification: a message (with the ATR text for an insertion), the
  message and the error of a failure, or the card record. Device names and lists,
  which come from the transport's objects, are left out.
\<close>

datatype payload =
  Message jsstring
  | Inserted jsstring jsstring
  | Failure jsstring thrown
  | Data ThaiIdCardData

record notification =
  event :: eventName
  status :: nat
  description :: jsstring
  payload :: payload

text \<open>
  The reader's fields, the notifications emitted so far and the exit code once
  \<^verbatim>\<open>process.exit\<close> has been called. Console output is not modelled.
\<close>

record reader =
  options :: RequiredOptions
  isInitialized :: bool
  cardInserted :: bool
  emitted :: "notification list"
  exitCode :: "nat option"

text \<open>The card object of an insertion event: its ATR, its command interface and state.\<close>

record 's cardHandle =
  getAtr :: buffer
  issue :: "'s card"
  state0 :: 's

definition ALL_FIELDS :: "QueryField list" where
  "ALL_FIELDS =
     [q_cid, q_name, q_nameEn, q_dob, q_gender, q_issuer, q_issueDate, q_expireDate,
      q_address, q_photo, q_nhso, q_laserId]"

definition validateAndSetOptions :: "CardReaderOptions \<Rightarrow> RequiredOptions" where
  "validateAndSetOptions given =
     \<lparr>exitOnReadError = (case exitOnReadError_given given of None \<Rightarrow> True | Some b \<Rightarrow> b),
      debug = (case debug_given given of None \<Rightarrow> False | Some b \<Rightarrow> b)\<rparr>"

text \<open>\<^verbatim>\<open>constructor(options = {})\<close>: \<open>None\<close> is a call without the argument.\<close>

definition construct :: "CardReaderOptions option \<Rightarrow> reader" where
  "construct optionsArg =
     (let given = (case optionsArg of
                     None \<Rightarrow> \<lparr>exitOnReadError_given = None, debug_given = None\<rparr>
                   | Some g \<Rightarrow> g)
      in \<lparr>options = validateAndSetOptions given, isInitialized = False,
          cardInserted = False, emitted = [], exitCode = None\<rparr>)"

definition emit :: "notification \<Rightarrow> reader \<Rightarrow> reader" where
  "emit n r = r\<lparr>emitted := emitted r @ [n]\<rparr>"

text \<open>\<^verbatim>\<open>init\<close> throws on a reader that is initialized already.\<close>

definition init :: "reader \<Rightarrow> thrown + reader" where
  "init r =
     (if isInitialized r
      then Inl (Error (ascii ''Thai National ID Card Reader is already initialized''))
      else Inr (r\<lparr>isInitialized := True\<rparr>))"

definition resetState :: "reader \<Rightarrow> reader" where
  "resetState r = r\<lparr>isInitialized := False, cardInserted := False\<rparr>"

definition destroy :: "reader \<Rightarrow> reader" where
  "destroy r = resetState r"

definition handleDeviceConnected :: "jsstring \<Rightarrow> reader \<Rightarrow> reader" where
  "handleDeviceConnected device r =
     (let message = ascii ''Card reader '' @ [0x27] @ device @ [0x27]
                    @ ascii '' connected and ready''
      in emit \<lparr>event = device_connected, status = 201,
               description = ascii ''Device Activated'', payload = Message message\<rparr> r)"

definition handleDeviceDisconnected :: "jsstring \<Rightarrow> reader \<Rightarrow> reader" where
  "handleDeviceDisconnected device r =
     (let message = ascii ''Card reader '' @ [0x27] @ device @ [0x27] @ ascii '' disconnected'';
          r = emit \<lparr>event = device_disconnected, status = 404,
                    description = ascii ''Device Deactivated'', payload = Message message\<rparr> r
      in r\<lparr>cardInserted := False\<rparr>)"

definition handleDeviceError :: "thrown \<Rightarrow> reader \<Rightarrow> reader" where
  "handleDeviceError error r =
     (let message = ascii ''Device error: ''
                    @ (case error of
                         Error m \<Rightarrow> if m = [] then ascii ''Error'' else ascii ''Error: '' @ m
                       | NonError v \<Rightarrow> v)
      in emit \<lparr>event = card_error, status = 500, description = ascii ''Device Error'',
               payload = Failure message error\<rparr> r)"

definition handleCardRemoved :: "reader \<Rightarrow> reader" where
  "handleCardRemoved r =
     (if cardInserted r then
        let message = ascii ''Thai National ID Card removed'';
            r = emit \<lparr>event = card_removed, status = 205,
                      description = ascii ''Card Removed'', payload = Message message\<rparr> r
        in r\<lparr>cardInserted := False\<rparr>
      else r)"

definition handleCardError :: "thrown \<Rightarrow> reader \<Rightarrow> reader" where
  "handleCardError ev r =
     (let message =
            ascii ''Incorrect card type - Please insert a valid Thai National ID Card''
      in emit \<lparr>event = card_incorrect, status = 400,
               description = ascii ''Incorrect Card Type'', payload = Failure message ev\<rparr> r)"

text \<open>
  \<^verbatim>\<open>handleReadError\<close>: the notification first, then \<^verbatim>\<open>process.exit(1)\<close> when the option
  asks for it.
\<close>

definition handleReadError :: "thrown \<Rightarrow> reader \<Rightarrow> reader" where
  "handleReadError error r =
     (let message = ascii ''Failed to read Thai National ID Card: '' @ errorMessage error;
          r = emit \<lparr>event = card_error, status = 500,
                    description = ascii ''Card Read Error'',
                    payload = Failure message
                      (case error of Error m \<Rightarrow> Error m | NonError v \<Rightarrow> Error v)\<rparr> r
      in if exitOnReadError (options r) then r\<lparr>exitCode := Some 1\<rparr> else r)"

definition determineRequestCommand :: "'s cardHandle \<Rightarrow> byte list" where
  "determineRequestCommand c =
     (let atr = getAtr c
      in if slice 0 8 (toHex atr) = toHex [0x3b, 0x67] then [0x00, 0xc0, 0x00, 0x01]
         else [0x00, 0xc0, 0x00, 0x00])"

definition extractPersonalData ::
  "collaborators \<Rightarrow> 's cardHandle \<Rightarrow> byte list \<Rightarrow> ThaiIdCardData \<Rightarrow> ('s, ThaiIdCardData) io" where
  "extractPersonalData ext c requestCommand currentData =
     tryCatch
       (let personalFields =
              filter (\<lambda>field. field \<noteq> q_nhso \<and> field \<noteq> q_laserId) ALL_FIELDS
        in if length personalFields > 0
           then andThen (PersonalApplet_getInfo ext (issue c) requestCommand
                           (Some personalFields)) (\<lambda>personalData.
                resolve (spread currentData personalData))
           else resolve currentData)
       (\<lambda>error. reject (Error (ascii ''Personal data extraction failed: ''
                                @ errorMessage error)))"

definition extractHealthData ::
  "collaborators \<Rightarrow> 's cardHandle \<Rightarrow> byte list \<Rightarrow> ThaiIdCardData \<Rightarrow> ('s, ThaiIdCardData) io" where
  "extractHealthData ext c requestCommand currentData =
     tryCatch
       (andThen (NhsoApplet_getInfo ext (issue c) requestCommand) (\<lambda>nhsoData.
        resolve (currentData\<lparr>nhso := Some nhsoData\<rparr>)))
       (\<lambda>error. resolve currentData)"

definition extractLaserData ::
  "collaborators \<Rightarrow> 's cardHandle \<Rightarrow> byte list \<Rightarrow> ThaiIdCardData \<Rightarrow> ('s, ThaiIdCardData) io" where
  "extractLaserData ext c requestCommand currentData =
     tryCatch
       (andThen (getLaser ext (issue c) requestCommand) (\<lambda>laserId.
        resolve (currentData\<lparr>laserId := Some laserId\<rparr>)))
       (\<lambda>error. resolve (currentData\<lparr>laserId := Some []\<rparr>))"

definition extractCardData :: "collaborators \<Rightarrow> 's cardHandle \<Rightarrow> ('s, ThaiIdCardData) io" where
  "extractCardData ext c =
     (let requestCommand = determineRequestCommand c;
          data = emptyData in
      andThen (extractPersonalData ext c requestCommand data) (\<lambda>data.
      andThen (extractHealthData ext c requestCommand data) (\<lambda>data.
      andThen (extractLaserData ext c requestCommand data) (\<lambda>data.
      resolve data))))"

text \<open>The world a read cycle starts in: the inserted card, no command issued yet.\<close>

definition cycleStart :: "'s cardHandle \<Rightarrow> 's world" where
  "cycleStart c = \<lparr>cardState = state0 c, issued = []\<rparr>"

text \<open>
  \<^verbatim>\<open>processCardData\<close>: the record is emitted as \<^verbatim>\<open>card-data\<close>, or the error goes to
  \<^verbatim>\<open>handleReadError\<close>. The application's listeners are outside the model.
\<close>

definition processCardData :: "collaborators \<Rightarrow> 's cardHandle \<Rightarrow> reader \<Rightarrow> reader" where
  "processCardData ext c r =
     (case extractCardData ext c (cycleStart c) of
        (Inr d, w) \<Rightarrow>
          emit \<lparr>event = card_data, status = 200,
                description = ascii ''Data Read Successfully'', payload = Data d\<rparr> r
      | (Inl error, w) \<Rightarrow> handleReadError error r)"

definition handleCardInserted :: "collaborators \<Rightarrow> 's cardHandle \<Rightarrow> reader \<Rightarrow> reader" where
  "handleCardInserted ext c r =
     (let atr = getAtr c;
          message = ascii ''Thai National ID Card detected (ATR: '' @ bufferToString ext atr
                    @ ascii '')'';
          r = emit \<lparr>event = card_inserted, status = 202,
                    description = ascii ''Card Inserted'',
                    payload = Inserted message (bufferToString ext atr)\<rparr> r;
          r = r\<lparr>cardInserted := True\<rparr>
      in processCardData ext c r)"

text \<open>
  What reaches the reader: the calls of its public methods and the signals of the
  transport.
\<close>

datatype 's input =
  CallInit
  | CallDestroy
  | DeviceActivated jsstring
  | DeviceDeactivated jsstring
  | DeviceError thrown
  | CardInserted "'s cardHandle"
  | CardRemoved
  | CardError thrown

fun dispatch :: "collaborators \<Rightarrow> 's input \<Rightarrow> reader \<Rightarrow> reader" where
  "dispatch ext CallInit r = (case init r of Inl e \<Rightarrow> r | Inr r' \<Rightarrow> r')"
| "dispatch ext CallDestroy r = destroy r"
| "dispatch ext (DeviceActivated device) r = handleDeviceConnected device r"
| "dispatch ext (DeviceDeactivated device) r = handleDeviceDisconnected device r"
| "dispatch ext (DeviceError e) r = handleDeviceError e r"
| "dispatch ext (CardInserted c) r = handleCardInserted ext c r"
| "dispatch ext CardRemoved r = handleCardRemoved r"
| "dispatch ext (CardError e) r = handleCardError e r"

text \<open>
  Serial executions: the handler of an input runs to its end, the read cycle of an
  insertion included, before the next input is handled, and nothing runs after
  \<^verbatim>\<open>process.exit\<close>. These are the executions in which no signal arrives while a read is
  suspended.
\<close>

definition step :: "collaborators \<Rightarrow> reader \<Rightarrow> 's input \<Rightarrow> reader" where
  "step ext r i = (if exitCode r \<noteq> None then r else dispatch ext i r)"

definition run :: "collaborators \<Rightarrow> reader \<Rightarrow> 's input list \<Rightarrow> reader" where
  "run ext r inputs = foldl (step ext) r inputs"

text \<open>
  All executions. \<^verbatim>\<open>handleCardInserted\<close> is an async function that nobody awaits. With the
  signal it runs up to its first suspension: the \<^verbatim>\<open>card-inserted\<close> notification and the
  flag. The rest of \<^verbatim>\<open>processCardData\<close>, the \<^verbatim>\<open>card-data\<close> notification or
  \<^verbatim>\<open>handleReadError\<close>, runs when the read settles, and other signals are handled in
  between. What a read settles with depends on the card and on the commands of other
  reads still under way, so an occurrence of settling carries its outcome; every
  execution of the code is such a sequence of occurrences.
\<close>

definition cardInsertedBegins :: "collaborators \<Rightarrow> 's cardHandle \<Rightarrow> reader \<Rightarrow> reader" where
  "cardInsertedBegins ext c r =
     (let atr = getAtr c;
          message = ascii ''Thai National ID Card detected (ATR: '' @ bufferToString ext atr
                    @ ascii '')'';
          r = emit \<lparr>event = card_inserted, status = 202,
                    description = ascii ''Card Inserted'',
                    payload = Inserted message (bufferToString ext atr)\<rparr> r
      in r\<lparr>cardInserted := True\<rparr>)"

definition readSettles :: "thrown + ThaiIdCardData \<Rightarrow> reader \<Rightarrow> reader" where
  "readSettles outcome r =
     (case outcome of
        Inr d \<Rightarrow>
          emit \<lparr>event = card_data, status = 200,
                description = ascii ''Data Read Successfully'', payload = Data d\<rparr> r
      | Inl error \<Rightarrow> handleReadError error r)"

datatype 's occurrence = Arrives "'s input" | Settles "thrown + ThaiIdCardData"

fun occurs :: "collaborators \<Rightarrow> 's occurrence \<Rightarrow> reader \<Rightarrow> reader" where
  "occurs ext (Arrives (CardInserted c)) r = cardInsertedBegins ext c r"
| "occurs ext (Arrives i) r = dispatch ext i r"
| "occurs ext (Settles outcome) r = readSettles outcome r"

definition stepInterleaved :: "collaborators \<Rightarrow> reader \<Rightarrow> 's occurrence \<Rightarrow> reader" where
  "stepInterleaved ext r oc = (if exitCode r \<noteq> None then r else occurs ext oc r)"

definition runInterleaved :: "collaborators \<Rightarrow> reader \<Rightarrow> 's occurrence list \<Rightarrow> reader" where
  "runInterleaved ext r ocs = foldl (stepInterleaved ext) r ocs"

text \<open>How many notifications of one name a reader has emitted.\<close>

definition emittedCount :: "eventName \<Rightarrow> reader \<Rightarrow> nat" where
  "emittedCount e r = length (filter (\<lambda>n. event n = e) (emitted r))"

section \<open>Properties of runs, and stand-ins for the examples\<close>

text \<open>
  Every \<^verbatim>\<open>card-removed\<close> notification emitted so far, and the card still counted as
  inserted, is matched by a \<^verbatim>\<open>card-inserted\<close> notification of its own.
\<close>

definition removalsCovered :: "reader \<Rightarrow> bool" where
  "removalsCovered r \<longleftrightarrow>
     emittedCount card_removed r + (if cardInserted r then 1 else 0)
       \<le> emittedCount card_inserted r"

text \<open>No card has been inserted: the flag is down and neither notification was emitted.\<close>

definition noInsertionYet :: "reader \<Rightarrow> bool" where
  "noInsertionYet r \<longleftrightarrow>
     \<not> cardInserted r \<and> emittedCount card_removed r = 0 \<and> emittedCount card_inserted r = 0"

fun isInsertion :: "'s input \<Rightarrow> bool" where
  "isInsertion (CardInserted c) = True"
| "isInsertion i = False"

fun isInsertionArrival :: "'s occurrence \<Rightarrow> bool" where
  "isInsertionArrival (Arrives i) = isInsertion i"
| "isInsertionArrival (Settles outcome) = False"

text \<open>
  A serial execution as a sequence of occurrences: the read of an insertion settles at
  once, with what the card gives when no other command comes in between.
\<close>

fun serial :: "collaborators \<Rightarrow> 's input \<Rightarrow> 's occurrence list" where
  "serial ext (CardInserted c) =
     [Arrives (CardInserted c), Settles (fst (extractCardData ext c (cycleStart c)))]"
| "serial ext i = [Arrives i]"



text \<open>
  Collaborators for the examples: bytes read as code units (which is UTF-8 on ASCII),
  no change of code page, and the hexadecimal text itself in place of the image.
\<close>

definition plainCollaborators :: collaborators where
  "plainCollaborators =
     \<lparr>bufferToString = map ucast, legacyDecode = (\<lambda>b. b), hex2imagebase64 = (\<lambda>h. h)\<rparr>"

text \<open>A card that rejects every command.\<close>

definition deadCard :: "unit cardHandle" where
  "deadCard =
     \<lparr>getAtr = [0x3b, 0x67, 0x00, 0x00],
      issue = (\<lambda>s bytes. (Inl (Error (ascii ''Card was reset'')), s)),
      state0 = ()\<rparr>"


text \<open>An ATR that begins with the bytes 3B 67.\<close>

definition thaiCardAtr :: buffer where
  "thaiCardAtr = [0x3b, 0x67, 0x00, 0x00, 0x2d, 0x20, 0x36, 0x30, 0x78, 0x90, 0x00]"


text \<open>
  The specification's reading of name parsing: the first four tokens, each trimmed, and
  an empty text for each missing one.
\<close>

definition nameParts :: "jsstring list \<Rightarrow> jsstring list" where
  "nameParts tokens = map trim (take 4 tokens) @ replicate (4 - length tokens) []"

text \<open>
  For the example of name parsing: collaborators whose text decoding reads TIS-620
  bytes, and the example's bytes, text and expected full name.
\<close>

definition tis620Collaborators :: collaborators where
  "tis620Collaborators =
     \<lparr>bufferToString = map (\<lambda>b. if 0xA1 \<le> b then 0x0E01 + (ucast b - 0xA1) else ucast b),
      legacyDecode = (\<lambda>b. b), hex2imagebase64 = (\<lambda>h. h)\<rparr>"

definition exampleNameBuffer :: buffer where
  "exampleNameBuffer =
     [0xB9, 0xD2, 0xC2, 0x23, 0xCA, 0xC1, 0xAA, 0xD2, 0xC2, 0x23, 0xE3, 0xA8, 0xB4, 0xD5, 0x23,
      0x90, 0x00]"

definition exampleName :: jsstring where
  "exampleName =
     [0x0E19, 0x0E32, 0x0E22, 0x0023, 0x0E2A, 0x0E21, 0x0E0A, 0x0E32, 0x0E22, 0x0023,
      0x0E43, 0x0E08, 0x0E14, 0x0E35, 0x0023]"

definition exampleFullname :: jsstring where
  "exampleFullname =
     [0x0E19, 0x0E32, 0x0E22, 0x0020, 0x0E2A, 0x0E21, 0x0E0A, 0x0E32, 0x0E22, 0x0020,
      0x0E43, 0x0E08, 0x0E14, 0x0E35]"

text \<open>
  A text that neither starts nor ends with white space.
\<close>

definition trimmed :: "jsstring \<Rightarrow> bool" where
  "trimmed s \<longleftrightarrow> s = [] \<or> (\<not> isWhiteSpace (hd s) \<and> \<not> isWhiteSpace (last s))"

text \<open>
  The example's names again, with blanks around the text and around the tokens.
\<close>

definition examplePaddedBuffer :: buffer where
  "examplePaddedBuffer =
     [0x20, 0x20, 0xB9, 0xD2, 0xC2, 0x20, 0x23, 0x20, 0xCA, 0xC1, 0xAA, 0xD2, 0xC2, 0x23,
      0xE3, 0xA8, 0xB4, 0xD5, 0x20, 0x23, 0x20, 0x20, 0x90, 0x00]"

text \<open>
  The specification's reading of the photo read: the two-phase read of each command in
  the order given, keeping the raw answers \<open>S1 + footer, S2 + footer, ...\<close> as they
  come.
\<close>

fun readSegments :: "'s card \<Rightarrow> byte list \<Rightarrow> byte list list \<Rightarrow> ('s, buffer list) io" where
  "readSegments card' requestCommand [] = resolve []"
| "readSegments card' requestCommand (command # rest) =
     andThen (getData card' command requestCommand) (\<lambda>segment.
     andThen (readSegments card' requestCommand rest) (\<lambda>segments.
     resolve (segment # segments)))"

text \<open>
  The commands a run of two-phase reads issues: each command, then the request prefix
  with that command's last byte.
\<close>

definition twoPhase :: "byte list \<Rightarrow> byte list list \<Rightarrow> byte list list" where
  "twoPhase requestCommand commands =
     concat (map (\<lambda>command. [command, requestCommand @ sliceLast command]) commands)"

text \<open>
  A card that gives the same answer to every command.
\<close>

definition steadyCard :: "buffer \<Rightarrow> unit card" where
  "steadyCard answer = (\<lambda>s bytes. (Inr answer, s))"

text \<open>
  Which of the nine insurance fields a record holds, in the order they are read.
\<close>

definition fieldsPresent :: "NhsoData \<Rightarrow> bool list" where
  "fieldsPresent d =
     [mainInscl d \<noteq> None, subInscl d \<noteq> None, mainHospitalName d \<noteq> None,
      subHospitalName d \<noteq> None, paidType d \<noteq> None, nhsoIssueDate d \<noteq> None,
      nhsoExpireDate d \<noteq> None, updateDate d \<noteq> None, changeHospitalAmount d \<noteq> None]"

text \<open>
  The record after the assignments of the first reads, given their answers.
\<close>

definition applyReads ::
  "(byte list \<times> (buffer \<Rightarrow> NhsoData \<Rightarrow> NhsoData)) list \<Rightarrow> buffer list \<Rightarrow> NhsoData \<Rightarrow> NhsoData" where
  "applyReads steps answers d = foldl (\<lambda>d (s, answer). snd s answer d) d (zip steps answers)"

text \<open>
  The nine insurance commands, in the order \<^verbatim>\<open>extractNhsoData\<close> reads them.
\<close>

definition NHSO_COMMANDS :: "byte list list" where
  "NHSO_COMMANDS =
     [CMD_MAIN_INSCL, CMD_SUB_INSCL, CMD_MAIN_HOSPITAL_NAME, CMD_SUB_HOSPITAL_NAME,
      CMD_PAID_TYPE, CMD_ISSUE_DATE, CMD_EXPIRE_DATE, CMD_UPDATE_DATE,
      CMD_CHANGE_HOSPITAL_AMOUNT]"

text \<open>
  The reads before the first failed read, as a specification to compare the code with:
  the answers of the two-phase reads of a list of commands, taken in order up to the
  first read that throws. The reads after it are not made.
\<close>

fun answersUntilFailure ::
  "'s card \<Rightarrow> byte list \<Rightarrow> byte list list \<Rightarrow> 's world \<Rightarrow> buffer list \<times> 's world" where
  "answersUntilFailure card' requestCommand [] w = ([], w)"
| "answersUntilFailure card' requestCommand (command # rest) w =
     (case getData card' command requestCommand w of
        (Inl error, w') \<Rightarrow> ([], w')
      | (Inr answer, w') \<Rightarrow>
          (case answersUntilFailure card' requestCommand rest w' of
             (answers, w'') \<Rightarrow> (answer # answers, w'')))"

text \<open>
  Every read of a list of commands, made in order from one world, resolves with the
  answer listed for it, and the last one leaves the world given.
\<close>

fun readsSucceed ::
  "'s card \<Rightarrow> byte list \<Rightarrow> byte list list \<Rightarrow> 's world \<Rightarrow> buffer list \<Rightarrow> 's world \<Rightarrow> bool" where
  "readsSucceed card' requestCommand [] w answers w' \<longleftrightarrow> answers = [] \<and> w' = w"
| "readsSucceed card' requestCommand (command # rest) w answers w' \<longleftrightarrow>
     (case answers of
        [] \<Rightarrow> False
      | answer # others \<Rightarrow>
          (case getData card' command requestCommand w of
             (Inl error, w1) \<Rightarrow> False
           | (Inr given, w1) \<Rightarrow>
               given = answer \<and> readsSucceed card' requestCommand rest w1 others w'))"

text \<open>
  A card that rejects one command and gives the same answer to every other one.
\<close>

definition rejecting :: "byte list \<Rightarrow> buffer \<Rightarrow> unit card" where
  "rejecting command answer =
     (\<lambda>s bytes. if bytes = command then (Inl (Error (ascii ''Transmit failed'')), s)
                else (Inr answer, s))"

text \<open>
  An answer for the examples: the text 25680315 and the two status bytes 90 00.
\<close>

definition exampleAnswer :: buffer where
  "exampleAnswer = [0x32, 0x35, 0x36, 0x38, 0x30, 0x33, 0x31, 0x35, 0x90, 0x00]"

definition freshWorld :: "unit world" where
  "freshWorld = \<lparr>cardState = (), issued = []\<rparr>"

text \<open>
  A computation that resolves with the same value in every world.
\<close>

definition yields :: "('s, 'a) io \<Rightarrow> 'a \<Rightarrow> bool" where
  "yields m v \<longleftrightarrow> (\<forall>w. fst (m w) = Inr v)"

text \<open>
  The ten personal fields, and the record a full personal read gives on a card that
  answers every personal command with the example answer.
\<close>

definition tenFields :: "QueryField list" where
  "tenFields =
     [q_cid, q_name, q_nameEn, q_dob, q_gender, q_issuer, q_issueDate, q_expireDate,
      q_address, q_photo]"

definition examplePersonal :: ThaiIdCardData where
  "examplePersonal =
     \<lparr>cid = Some (ascii ''25680315''), name = Some (ascii ''25680315''),
      nameEn = Some (ascii ''25680315''), dob = Some (ascii ''2025-03-15''),
      gender = Some (ascii ''25680315''), issuer = Some (ascii ''25680315''),
      issueDate = Some (ascii ''2025-03-15''), expireDate = Some (ascii ''2025-03-15''),
      address = Some (ascii ''25680315''),
      photo = Some (concat (replicate 20 (ascii ''3235363830333135''))),
      nhso = None, laserId = None\<rparr>"

text \<open>
  The selection command \<^verbatim>\<open>getLaser\<close> sends first.
\<close>

definition laserAppletSelect :: "byte list" where
  "laserAppletSelect =
     [0x00, 0xa4, 0x04, 0x00, 0x08, 0xa0, 0x00, 0x00, 0x00, 0x84, 0x06, 0x00, 0x02]"

text \<open>
  Cards for the examples of a read cycle: the card rejects the insurance applet's
  selection, or the laser id applet's, and answers everything else.
\<close>

definition cardRejecting :: "byte list \<Rightarrow> unit cardHandle" where
  "cardRejecting command =
     \<lparr>getAtr = thaiCardAtr, issue = rejecting command exampleAnswer, state0 = ()\<rparr>"

section \<open>Date conversion: proofs\<close>

lemma digit_unat: "isDecimalDigit c \<longleftrightarrow> 48 \<le> unat c \<and> unat c \<le> 57"
  unfolding isDecimalDigit_def by (simp add: word_le_nat_alt)

lemma digitValue_digit: "isDecimalDigit c \<Longrightarrow> digitValue c = Some (unat c - 48)"
  unfolding isDecimalDigit_def digitValue_def by simp

lemma digit_isRadix: "isDecimalDigit c \<Longrightarrow> isRadixDigit 10 c"
proof -
  assume d: "isDecimalDigit c"
  then have "unat c - 48 < 10" using digit_unat[of c] by arith
  then show ?thesis by (simp add: isRadixDigit_def digitValue_digit[OF d])
qed

lemma digit_value: "isDecimalDigit c \<Longrightarrow> int (the (digitValue c)) = uint c - 48"
proof -
  assume d: "isDecimalDigit c"
  then have "48 \<le> unat c" using digit_unat[of c] by simp
  then have "int (unat c - 48) = int (unat c) - 48" by arith
  then show ?thesis by (simp add: digitValue_digit[OF d])
qed

lemma digit_not_ws: "isDecimalDigit c \<Longrightarrow> \<not> isWhiteSpace c"
proof
  assume d: "isDecimalDigit c" and w: "isWhiteSpace c"
  from d have r: "48 \<le> unat c" "unat c \<le> 57" using digit_unat[of c] by simp_all
  from w show False unfolding isWhiteSpace_def
  proof (elim disjE conjE)
    assume "0x2000 \<le> c"
    then have "8192 \<le> unat c" by (simp add: word_le_nat_alt)
    with r show False by arith
  qed (use r in simp_all)
qed

lemma radixValue_digits:
  "\<forall>c\<in>set Z. isDecimalDigit c \<Longrightarrow> radixValue 10 Z = decimalValue Z"
proof -
  have "\<forall>c\<in>set Z. isDecimalDigit c \<Longrightarrow>
        foldl (\<lambda>a c. int 10 * a + int (the (digitValue c))) a0 Z
      = foldl (\<lambda>a c. 10 * a + (uint c - 48)) a0 Z" for a0
    by (induction Z arbitrary: a0) (simp_all add: digit_value)
  then show "\<forall>c\<in>set Z. isDecimalDigit c \<Longrightarrow> radixValue 10 Z = decimalValue Z"
    by (simp add: radixValue_def decimalValue_def)
qed

lemma no_hex_prefix:
  assumes "\<forall>c\<in>set S. isDecimalDigit c"
  shows "take 2 S \<noteq> [0x30, 0x78]" and "take 2 S \<noteq> [0x30, 0x58]"
proof -
  have key: False if "take 2 S = [0x30, x]" and nx: "\<not> isDecimalDigit x" for x :: jschar
  proof -
    from that have "x \<in> set (take 2 S)" by simp
    then have "x \<in> set S" by (rule in_set_takeD)
    then show False using assms nx by blast
  qed
  have "\<not> isDecimalDigit 0x78" "\<not> isDecimalDigit 0x58" by (simp_all add: isDecimalDigit_def)
  with key show "take 2 S \<noteq> [0x30, 0x78]" "take 2 S \<noteq> [0x30, 0x58]" by blast+
qed

lemma parseInt_digits:
  assumes "S \<noteq> []" and "\<forall>c\<in>set S. isDecimalDigit c"
  shows "parseInt S (Some 10) = Num (decimalValue S)"
    and "parseInt S None = Num (decimalValue S)"
proof -
  obtain c cs where S: "S = c # cs" using assms(1) by (cases S) auto
  have d: "isDecimalDigit c" using assms(2) S by simp
  have ts: "trimStart S = S" using digit_not_ws[OF d] by (simp add: trimStart_def S)
  have "unat (hd S) \<noteq> 45" "unat (hd S) \<noteq> 43" using digit_unat[of c] d S by auto
  then have hd1: "hd S \<noteq> 0x2D" "hd S \<noteq> 0x2B" by auto
  have tw: "takeWhile (isRadixDigit 10) S = S"
    using assms(2) by (simp add: takeWhile_eq_all_conv digit_isRadix)
  note nohex = no_hex_prefix[OF assms(2)]
  show "parseInt S (Some 10) = Num (decimalValue S)"
    unfolding parseInt_def ts Let_def
    using assms(1) hd1 by (simp add: tw radixValue_digits[OF assms(2)])
  show "parseInt S None = Num (decimalValue S)"
    unfolding parseInt_def ts Let_def
    using assms(1) hd1 nohex by (simp add: tw radixValue_digits[OF assms(2)])
qed

text \<open>
  C2, as the code has it. On a date of eight decimal digits both converters return the
  year, the digits of the first four characters read as a decimal number minus 543, then
  the fifth and sixth and the seventh and eighth characters unchanged, joined by hyphens;
  on eight decimal digits the two converters agree. The date 25680315 gives 2025-03-15.
\<close>

theorem date_conversion_numeric:
  assumes "length D = 8" and "\<forall>c\<in>set D. isDecimalDigit c"
  shows "convertBuddhistToGregorianDate D =
           Inr (numToString (Num (decimalValue (take 4 D) - 543)) @ ascii ''-''
                @ take 2 (drop 4 D) @ ascii ''-'' @ take 2 (drop 6 D))
       \<and> convertBuddhistDate D =
           numToString (Num (decimalValue (take 4 D) - 543)) @ ascii ''-''
           @ take 2 (drop 4 D) @ ascii ''-'' @ take 2 (drop 6 D)
       \<and> convertBuddhistToGregorianDate D = Inr (convertBuddhistDate D)"
proof -
  have ne: "take 4 D \<noteq> []" using assms(1) by auto
  have dg: "\<forall>c\<in>set (take 4 D). isDecimalDigit c"
    using assms(2) by (meson in_set_takeD)
  have D: "D \<noteq> []" using assms(1) by auto
  note p = parseInt_digits[OF ne dg]
  have a: "convertBuddhistToGregorianDate D =
           Inr (numToString (Num (decimalValue (take 4 D) - 543)) @ ascii ''-''
                @ take 2 (drop 4 D) @ ascii ''-'' @ take 2 (drop 6 D))"
    using assms(1) by (simp add: convertBuddhistToGregorianDate_def slice_def p(1) Let_def)
  have b: "convertBuddhistDate D =
           numToString (Num (decimalValue (take 4 D) - 543)) @ ascii ''-''
           @ take 2 (drop 4 D) @ ascii ''-'' @ take 2 (drop 6 D)"
    using assms(1) D by (simp add: convertBuddhistDate_def substring_def p(2) Let_def)
  from a b show ?thesis by simp
qed

theorem date_conversion_numeric_witness:
  "length (ascii ''25680315'') = 8 \<and> list_all isDecimalDigit (ascii ''25680315'')
   \<and> convertBuddhistToGregorianDate (ascii ''25680315'') = Inr (ascii ''2025-03-15'')
   \<and> convertBuddhistDate (ascii ''25680315'') = ascii ''2025-03-15''"
proof -
  have l: "length (ascii ''25680315'') = 8" by (simp add: ascii_def)
  have d: "\<forall>c\<in>set (ascii ''25680315''). isDecimalDigit c"
    by (simp add: ascii_def isDecimalDigit_def)
  have v: "numToString (Num (decimalValue (take 4 (ascii ''25680315'')) - 543)) = ascii ''2025''"
    by (simp add: ascii_def decimalValue_def natToString.simps)
  show ?thesis
    using date_conversion_numeric[OF l d] l d unfolding v list_all_iff by (simp add: ascii_def)
qed

text \<open>
  C6. On a text whose length is not eight the personal applet's converter throws (an
  Error naming the text) and the insurance applet's converter returns the empty string.
\<close>

theorem malformed_date_policies:
  assumes "length D \<noteq> 8"
  shows "convertBuddhistToGregorianDate D =
           Inl (Error (ascii ''Invalid date format: '' @ D @ ascii ''. Expected YYYYMMDD.''))
       \<and> convertBuddhistDate D = []"
  using assms by (simp add: convertBuddhistToGregorianDate_def convertBuddhistDate_def)

theorem malformed_date_policies_witness:
  "length (ascii ''2568031'') \<noteq> 8
   \<and> convertBuddhistToGregorianDate (ascii ''2568031'') =
       Inl (Error (ascii ''Invalid date format: 2568031. Expected YYYYMMDD.''))
   \<and> convertBuddhistDate (ascii ''2568031'') = []"
proof -
  have l: "length (ascii ''2568031'') \<noteq> 8" by (simp add: ascii_def)
  show ?thesis using malformed_date_policies[OF l] l by (simp add: ascii_def)
qed

text \<open>
  C2 as stated fails in its last sentence: the two converters do not agree on every text
  of eight characters. A year part written \<^verbatim>\<open>0x10\<close> is read as 0 by \<^verbatim>\<open>parseInt(s, 10)\<close> and
  as 16 by \<^verbatim>\<open>parseInt(s)\<close>, so the personal applet's converter gives -543-01-01 and the
  insurance applet's gives -527-01-01.
\<close>

theorem converters_disagree_on_hex_year:
  "length (ascii ''0x100101'') = 8
   \<and> convertBuddhistToGregorianDate (ascii ''0x100101'') = Inr (ascii ''-543-01-01'')
   \<and> convertBuddhistDate (ascii ''0x100101'') = ascii ''-527-01-01''
   \<and> convertBuddhistToGregorianDate (ascii ''0x100101'')
       \<noteq> Inr (convertBuddhistDate (ascii ''0x100101''))"
  by (simp add: convertBuddhistToGregorianDate_def convertBuddhistDate_def ascii_def slice_def
      substring_def parseInt_def trimStart_def isWhiteSpace_def isRadixDigit_def digitValue_def
      radixValue_def natToString.simps)

section \<open>The reader's state machine: proofs\<close>

lemma emittedCount_emit:
  "emittedCount e (emit n r) = emittedCount e r + (if event n = e then 1 else 0)"
  by (simp add: emittedCount_def emit_def)

lemma emittedCount_flags [simp]:
  "emittedCount e (r\<lparr>cardInserted := b\<rparr>) = emittedCount e r"
  "emittedCount e (r\<lparr>isInitialized := b\<rparr>) = emittedCount e r"
  "emittedCount e (r\<lparr>exitCode := x\<rparr>) = emittedCount e r"
  by (simp_all add: emittedCount_def)

lemma emit_flags [simp]:
  "cardInserted (emit n r) = cardInserted r"
  "options (emit n r) = options r"
  "exitCode (emit n r) = exitCode r"
  by (simp_all add: emit_def)

lemma handleReadError_counts:
  "e \<noteq> card_error \<Longrightarrow> emittedCount e (handleReadError err r) = emittedCount e r"
  "cardInserted (handleReadError err r) = cardInserted r"
  by (simp_all add: handleReadError_def Let_def emittedCount_emit)

lemma handleCardRemoved_counts:
  "emittedCount card_removed (handleCardRemoved r)
     = emittedCount card_removed r + (if cardInserted r then 1 else 0)"
  "emittedCount card_inserted (handleCardRemoved r) = emittedCount card_inserted r"
  "\<not> cardInserted (handleCardRemoved r)"
  by (simp_all add: handleCardRemoved_def Let_def emittedCount_emit)

lemma other_handlers_counts:
  assumes "e = card_removed \<or> e = card_inserted"
  shows "emittedCount e (handleDeviceConnected d r) = emittedCount e r"
    and "emittedCount e (handleDeviceDisconnected d r) = emittedCount e r"
    and "emittedCount e (handleDeviceError x r) = emittedCount e r"
    and "emittedCount e (handleCardError x r) = emittedCount e r"
    and "emittedCount e (destroy r) = emittedCount e r"
    and "emittedCount e (case init r of Inl x \<Rightarrow> r | Inr r' \<Rightarrow> r') = emittedCount e r"
  using assms
  by (auto simp: handleDeviceConnected_def handleDeviceDisconnected_def handleDeviceError_def
      handleCardError_def destroy_def resetState_def init_def Let_def emittedCount_emit)

lemma other_handlers_flag:
  shows "cardInserted (handleDeviceConnected d r) = cardInserted r"
    and "\<not> cardInserted (handleDeviceDisconnected d r)"
    and "cardInserted (handleDeviceError x r) = cardInserted r"
    and "cardInserted (handleCardError x r) = cardInserted r"
    and "\<not> cardInserted (destroy r)"
    and "cardInserted (case init r of Inl x \<Rightarrow> r | Inr r' \<Rightarrow> r') = cardInserted r"
  by (auto simp: handleDeviceConnected_def handleDeviceDisconnected_def handleDeviceError_def
      handleCardError_def destroy_def resetState_def init_def Let_def)

lemma construct_start: "removalsCovered (construct given)" "noInsertionYet (construct given)"
  by (simp_all add: removalsCovered_def noInsertionYet_def construct_def emittedCount_def Let_def)

lemma handleCardInserted_phases:
  "handleCardInserted ext c r
   = readSettles (fst (extractCardData ext c (cycleStart c))) (cardInsertedBegins ext c r)"
  by (simp add: handleCardInserted_def cardInsertedBegins_def readSettles_def
      processCardData_def Let_def split: prod.splits sum.splits)

lemma cardInsertedBegins_counts:
  "emittedCount card_removed (cardInsertedBegins ext c r) = emittedCount card_removed r"
  "emittedCount card_inserted (cardInsertedBegins ext c r) = emittedCount card_inserted r + 1"
  "cardInserted (cardInsertedBegins ext c r)"
  "exitCode (cardInsertedBegins ext c r) = exitCode r"
  by (simp_all add: cardInsertedBegins_def Let_def emittedCount_emit)

lemma readSettles_counts:
  "e \<noteq> card_error \<Longrightarrow> e \<noteq> card_data \<Longrightarrow>
     emittedCount e (readSettles outcome r) = emittedCount e r"
  "cardInserted (readSettles outcome r) = cardInserted r"
  by (simp_all add: readSettles_def handleReadError_counts emittedCount_emit split: sum.splits)

lemma occurs_removalsCovered: "removalsCovered r \<Longrightarrow> removalsCovered (occurs ext oc r)"
proof (cases oc)
  case (Arrives i)
  then show "removalsCovered r \<Longrightarrow> removalsCovered (occurs ext oc r)"
    unfolding removalsCovered_def
    by (cases i)
      (simp_all add: other_handlers_counts other_handlers_flag cardInsertedBegins_counts
        handleCardRemoved_counts)
next
  case (Settles outcome)
  then show "removalsCovered r \<Longrightarrow> removalsCovered (occurs ext oc r)"
    unfolding removalsCovered_def by (simp add: readSettles_counts)
qed

lemma runInterleaved_removalsCovered:
  "removalsCovered r \<Longrightarrow> removalsCovered (runInterleaved ext r ocs)"
  unfolding runInterleaved_def
  by (induction ocs arbitrary: r) (simp_all add: stepInterleaved_def occurs_removalsCovered)

lemma occurs_noInsertionYet:
  "noInsertionYet r \<Longrightarrow> \<not> isInsertionArrival oc \<Longrightarrow> noInsertionYet (occurs ext oc r)"
proof (cases oc)
  case (Arrives i)
  then show "noInsertionYet r \<Longrightarrow> \<not> isInsertionArrival oc \<Longrightarrow> noInsertionYet (occurs ext oc r)"
    unfolding noInsertionYet_def
    by (cases i)
      (simp_all add: other_handlers_counts other_handlers_flag handleCardRemoved_counts)
next
  case (Settles outcome)
  then show "noInsertionYet r \<Longrightarrow> \<not> isInsertionArrival oc \<Longrightarrow> noInsertionYet (occurs ext oc r)"
    unfolding noInsertionYet_def by (simp add: readSettles_counts)
qed

lemma runInterleaved_noInsertionYet:
  "noInsertionYet r \<Longrightarrow> list_all (\<lambda>oc. \<not> isInsertionArrival oc) ocs
   \<Longrightarrow> noInsertionYet (runInterleaved ext r ocs)"
  unfolding runInterleaved_def
  by (induction ocs arbitrary: r) (simp_all add: stepInterleaved_def occurs_noInsertionYet)

lemma step_serial: "step ext r i = foldl (stepInterleaved ext) r (serial ext i)"
  by (cases i)
    (auto simp: step_def stepInterleaved_def handleCardInserted_phases
      cardInsertedBegins_counts)

lemma run_serial: "run ext r inputs = runInterleaved ext r (concat (map (serial ext) inputs))"
  unfolding run_def runInterleaved_def
  by (induction inputs arbitrary: r) (simp_all add: step_serial)

text \<open>
  C5. \<^verbatim>\<open>handleCardRemoved\<close> emits \<^verbatim>\<open>card-removed\<close> exactly when \<^verbatim>\<open>cardInserted\<close> is
  true as the signal arrives, and leaves the flag false. In every execution from a fresh
  reader, with signals handled while reads are suspended and reads settling with any
  outcome at any time, each \<^verbatim>\<open>card-removed\<close> notification (and a flag still up) has a
  \<^verbatim>\<open>card-inserted\<close> notification of its own before it, and an execution without an
  insertion signal emits no \<^verbatim>\<open>card-removed\<close> at all. The serial executions are among them.
  The example is an activation followed at once by a removal.
\<close>

theorem card_removed_requires_insertion:
  "emitted (handleCardRemoved r) =
     (if cardInserted r
      then emitted r @ [\<lparr>event = card_removed, status = 205,
                         description = ascii ''Card Removed'',
                         payload = Message (ascii ''Thai National ID Card removed'')\<rparr>]
      else emitted r)
   \<and> \<not> cardInserted (handleCardRemoved r)
   \<and> emittedCount card_removed (runInterleaved ext (construct given) ocs)
       + (if cardInserted (runInterleaved ext (construct given) ocs) then 1 else 0)
       \<le> emittedCount card_inserted (runInterleaved ext (construct given) ocs)
   \<and> (list_all (\<lambda>oc. \<not> isInsertionArrival oc) ocs \<longrightarrow>
        emittedCount card_removed (runInterleaved ext (construct given) ocs) = 0)
   \<and> run ext (construct given) inputs
       = runInterleaved ext (construct given) (concat (map (serial ext) inputs))"
proof -
  have a: "emitted (handleCardRemoved r) =
     (if cardInserted r
      then emitted r @ [\<lparr>event = card_removed, status = 205,
                         description = ascii ''Card Removed'',
                         payload = Message (ascii ''Thai National ID Card removed'')\<rparr>]
      else emitted r)"
    by (simp add: handleCardRemoved_def emit_def Let_def)
  have b: "\<not> cardInserted (handleCardRemoved r)"
    by (rule handleCardRemoved_counts(3))
  have c: "removalsCovered (runInterleaved ext (construct given) ocs)"
    by (rule runInterleaved_removalsCovered[OF construct_start(1)])
  have d: "emittedCount card_removed (runInterleaved ext (construct given) ocs) = 0"
    if "list_all (\<lambda>oc. \<not> isInsertionArrival oc) ocs"
    using runInterleaved_noInsertionYet[OF construct_start(2) that]
    by (simp add: noInsertionYet_def)
  from a b c d run_serial[of ext "construct given" inputs]
  show ?thesis unfolding removalsCovered_def by blast
qed

theorem card_removed_requires_insertion_witness:
  "emittedCount card_removed
     (runInterleaved plainCollaborators (construct None)
        [Arrives CallInit, Arrives (DeviceActivated (ascii ''reader'')),
         Arrives (CardRemoved :: unit input), Settles (Inr emptyData)]) = 0"
proof -
  have n: "list_all (\<lambda>oc. \<not> isInsertionArrival oc)
             [Arrives CallInit, Arrives (DeviceActivated (ascii ''reader'')),
              Arrives (CardRemoved :: unit input), Settles (Inr emptyData)]"
    by simp
  show ?thesis
    using card_removed_requires_insertion[of "construct None" plainCollaborators None
            "[Arrives CallInit, Arrives (DeviceActivated (ascii ''reader'')),
              Arrives (CardRemoved :: unit input), Settles (Inr emptyData)]"] n
    by blast
qed

text \<open>
  A removal that arrives while the read is suspended is handled before the read fails:
  the notifications come as inserted, removed, error, and the process exits.
\<close>

lemma removal_during_a_read:
  "map event (emitted (runInterleaved plainCollaborators (construct None)
     [Arrives (CardInserted deadCard), Arrives CardRemoved,
      Settles (Inl (Error (ascii ''Card was reset''))), Arrives CardRemoved]))
   = [card_inserted, card_removed, card_error]
   \<and> exitCode (runInterleaved plainCollaborators (construct None)
     [Arrives (CardInserted deadCard), Arrives CardRemoved,
      Settles (Inl (Error (ascii ''Card was reset''))), Arrives CardRemoved]) = Some 1"
  by (simp add: runInterleaved_def stepInterleaved_def cardInsertedBegins_def readSettles_def
      handleCardRemoved_def handleReadError_def construct_def validateAndSetOptions_def
      emit_def Let_def)

lemma options_step: "options (step ext r i) = options r"
  unfolding step_def
  by (cases i)
    (simp_all add: init_def destroy_def resetState_def handleDeviceConnected_def
      handleDeviceDisconnected_def handleDeviceError_def handleCardInserted_def
      handleCardRemoved_def handleCardError_def processCardData_def handleReadError_def
      Let_def split: prod.splits sum.splits)

lemma options_run: "options (run ext r inputs) = options r"
  unfolding run_def by (induction inputs arbitrary: r) (simp_all add: options_step)

lemma run_after_exit: "exitCode r \<noteq> None \<Longrightarrow> run ext r inputs = r"
  unfolding run_def by (induction inputs) (simp_all add: step_def)

lemma personal_failure_aborts:
  assumes "extractPersonalData ext c (determineRequestCommand c) emptyData w = (Inl e, w')"
  shows "extractCardData ext c w = (Inl e, w')"
  using assms by (simp add: extractCardData_def Let_def andThen_def)

lemma personal_failure_is_Error:
  assumes "extractPersonalData ext c rc d w = (Inl e, w')"
  shows "\<exists>m. e = Error (ascii ''Personal data extraction failed: '' @ m)"
  using assms
  by (auto simp: extractPersonalData_def tryCatch_def reject_def split: prod.splits sum.splits)

text \<open>
  C10. Without an options object the reader has \<^verbatim>\<open>exitOnReadError = true\<close> and
  \<^verbatim>\<open>debug = false\<close>, and each option alone defaults the same way when omitted. So
  on a reader built by default, whatever it handled before, an insertion whose personal
  data extraction throws emits \<^verbatim>\<open>card-inserted\<close>, then \<^verbatim>\<open>card-error\<close> with status 500, then
  exits the process with code 1, after which nothing is handled.
\<close>

theorem default_options_exit_on_read_error:
  "options (construct None) = \<lparr>exitOnReadError = True, debug = False\<rparr>
   \<and> exitOnReadError (validateAndSetOptions \<lparr>exitOnReadError_given = None, debug_given = d\<rparr>)
   \<and> \<not> debug (validateAndSetOptions \<lparr>exitOnReadError_given = x, debug_given = None\<rparr>)
   \<and> (exitCode (run ext (construct None) inputs) = None
        \<and> extractPersonalData ext c (determineRequestCommand c) emptyData (cycleStart c)
            = (Inl e, w)
      \<longrightarrow> emitted (step ext (run ext (construct None) inputs) (CardInserted c))
            = emitted (run ext (construct None) inputs)
              @ [\<lparr>event = card_inserted, status = 202, description = ascii ''Card Inserted'',
                  payload = Inserted
                    (ascii ''Thai National ID Card detected (ATR: ''
                     @ bufferToString ext (getAtr c) @ ascii '')'')
                    (bufferToString ext (getAtr c))\<rparr>,
                 \<lparr>event = card_error, status = 500, description = ascii ''Card Read Error'',
                  payload = Failure
                    (ascii ''Failed to read Thai National ID Card: '' @ errorMessage e) e\<rparr>]
          \<and> exitCode (step ext (run ext (construct None) inputs) (CardInserted c)) = Some 1
          \<and> run ext (step ext (run ext (construct None) inputs) (CardInserted c)) later
             = step ext (run ext (construct None) inputs) (CardInserted c))"
proof -
  have a: "options (construct None) = \<lparr>exitOnReadError = True, debug = False\<rparr>"
    by (simp add: construct_def validateAndSetOptions_def)
  have b: "exitOnReadError (validateAndSetOptions \<lparr>exitOnReadError_given = None, debug_given = d\<rparr>)"
    by (simp add: validateAndSetOptions_def)
  have c: "\<not> debug (validateAndSetOptions \<lparr>exitOnReadError_given = x, debug_given = None\<rparr>)"
    by (simp add: validateAndSetOptions_def)
  define r where "r = run ext (construct None) inputs"
  have opt: "exitOnReadError (options r)"
    unfolding r_def options_run a by simp
  have d: "emitted (step ext r (CardInserted c))
            = emitted r
              @ [\<lparr>event = card_inserted, status = 202, description = ascii ''Card Inserted'',
                  payload = Inserted
                    (ascii ''Thai National ID Card detected (ATR: ''
                     @ bufferToString ext (getAtr c) @ ascii '')'')
                    (bufferToString ext (getAtr c))\<rparr>,
                 \<lparr>event = card_error, status = 500, description = ascii ''Card Read Error'',
                  payload = Failure
                    (ascii ''Failed to read Thai National ID Card: '' @ errorMessage e) e\<rparr>]
          \<and> exitCode (step ext r (CardInserted c)) = Some 1
          \<and> run ext (step ext r (CardInserted c)) later = step ext r (CardInserted c)"
    if live: "exitCode r = None"
      and fail: "extractPersonalData ext c (determineRequestCommand c) emptyData (cycleStart c)
            = (Inl e, w)"
  proof -
    obtain m where e: "e = Error m" using personal_failure_is_Error[OF fail] by blast
    have s: "step ext r (CardInserted c)
             = handleReadError e
                 ((emit \<lparr>event = card_inserted, status = 202,
                         description = ascii ''Card Inserted'',
                         payload = Inserted
                           (ascii ''Thai National ID Card detected (ATR: ''
                            @ bufferToString ext (getAtr c) @ ascii '')'')
                           (bufferToString ext (getAtr c))\<rparr> r)\<lparr>cardInserted := True\<rparr>)"
      using live
      by (simp add: step_def handleCardInserted_def Let_def processCardData_def
          personal_failure_aborts[OF fail])
    have x: "exitCode (step ext r (CardInserted c)) = Some 1"
      unfolding s using opt by (simp add: handleReadError_def Let_def)
    have em: "emitted (step ext r (CardInserted c))
            = emitted r
              @ [\<lparr>event = card_inserted, status = 202, description = ascii ''Card Inserted'',
                  payload = Inserted
                    (ascii ''Thai National ID Card detected (ATR: ''
                     @ bufferToString ext (getAtr c) @ ascii '')'')
                    (bufferToString ext (getAtr c))\<rparr>,
                 \<lparr>event = card_error, status = 500, description = ascii ''Card Read Error'',
                  payload = Failure
                    (ascii ''Failed to read Thai National ID Card: '' @ errorMessage e) e\<rparr>]"
      unfolding s using opt by (simp add: handleReadError_def Let_def emit_def e)
    have "exitCode (step ext r (CardInserted c)) \<noteq> None" using x by simp
    from run_after_exit[OF this] x em show ?thesis by simp
  qed
  from a b c d show ?thesis unfolding r_def by blast
qed

lemma deadCard_personal:
  "extractPersonalData plainCollaborators deadCard (determineRequestCommand deadCard) emptyData
     (cycleStart deadCard)
   = (Inl (Error (ascii ''Personal data extraction failed: Card was reset'')),
      \<lparr>cardState = (), issued = [person_SELECT @ THAI_CARD]\<rparr>)"
  by (simp add: extractPersonalData_def ALL_FIELDS_def PersonalApplet_getInfo_def
      initializeCard_def issueCommand_def andThen_def tryCatch_def reject_def deadCard_def
      cycleStart_def ascii_def)

theorem default_options_exit_on_read_error_witness:
  "exitCode (step plainCollaborators (run plainCollaborators (construct None) ([] :: unit input list))
      (CardInserted deadCard)) = Some 1
   \<and> map event (emitted (step plainCollaborators
        (run plainCollaborators (construct None) ([] :: unit input list))
        (CardInserted deadCard))) = [card_inserted, card_error]"
proof -
  have live: "exitCode (run plainCollaborators (construct None) ([] :: unit input list)) = None"
    by (simp add: run_def construct_def)
  have em: "emitted (run plainCollaborators (construct None) ([] :: unit input list)) = []"
    by (simp add: run_def construct_def)
  note t = default_options_exit_on_read_error[of None None plainCollaborators
        "[] :: unit input list" deadCard
        "Error (ascii ''Personal data extraction failed: Card was reset'')"
        "\<lparr>cardState = (), issued = [person_SELECT @ THAI_CARD]\<rparr>" "[]"]
  from t live deadCard_personal
  have "emitted (step plainCollaborators
          (run plainCollaborators (construct None) ([] :: unit input list))
          (CardInserted deadCard))
        = emitted (run plainCollaborators (construct None) ([] :: unit input list))
          @ [\<lparr>event = card_inserted, status = 202, description = ascii ''Card Inserted'',
              payload = Inserted
                (ascii ''Thai National ID Card detected (ATR: ''
                 @ bufferToString plainCollaborators (getAtr deadCard) @ ascii '')'')
                (bufferToString plainCollaborators (getAtr deadCard))\<rparr>,
             \<lparr>event = card_error, status = 500, description = ascii ''Card Read Error'',
              payload = Failure
                (ascii ''Failed to read Thai National ID Card: ''
                 @ errorMessage (Error (ascii ''Personal data extraction failed: Card was reset'')))
                (Error (ascii ''Personal data extraction failed: Card was reset''))\<rparr>]
      \<and> exitCode (step plainCollaborators
          (run plainCollaborators (construct None) ([] :: unit input list))
          (CardInserted deadCard)) = Some 1"
    by blast
  then show ?thesis unfolding em by simp
qed

section \<open>The request prefix: proofs\<close>

lemma toHex_3b67: "toHex [0x3b, 0x67] = [0x33, 0x62, 0x36, 0x37]"
  by (simp add: toHex_def hexDigit_def)

lemma length_toHex: "length (toHex b) = 2 * length b"
  by (induction b) (simp_all add: toHex_def)

lemma unat_hexDigit:
  assumes "d < 16"
  shows "unat (hexDigit d) = (if d < 10 then 48 + d else 87 + d)"
proof (cases "d < 10")
  case True
  have "unat (of_nat (48 + d) :: jschar) = (48 + d) mod 2 ^ LENGTH(16)" by (rule unat_of_nat)
  also have "\<dots> = 48 + d" using assms by simp
  finally show ?thesis using True unfolding hexDigit_def by simp
next
  case False
  have "unat (of_nat (97 + (d - 10)) :: jschar) = (97 + (d - 10)) mod 2 ^ LENGTH(16)"
    by (rule unat_of_nat)
  also have "\<dots> = 87 + d" using assms False by simp
  finally show ?thesis using False unfolding hexDigit_def by simp
qed

lemma hexDigit_cases:
  assumes "d < 16"
  shows "hexDigit d = 0x33 \<Longrightarrow> d = 3" and "hexDigit d = 0x62 \<Longrightarrow> d = 11"
    and "hexDigit d = 0x36 \<Longrightarrow> d = 6" and "hexDigit d = 0x37 \<Longrightarrow> d = 7"
proof -
  note u = unat_hexDigit[OF assms]
  show "d = 3" if "hexDigit d = 0x33"
  proof -
    from that have "unat (hexDigit d) = 51" by simp
    with u show ?thesis by (simp split: if_splits)
  qed
  show "d = 11" if "hexDigit d = 0x62"
  proof -
    from that have "unat (hexDigit d) = 98" by simp
    with u show ?thesis by (simp split: if_splits)
  qed
  show "d = 6" if "hexDigit d = 0x36"
  proof -
    from that have "unat (hexDigit d) = 54" by simp
    with u show ?thesis by (simp split: if_splits)
  qed
  show "d = 7" if "hexDigit d = 0x37"
  proof -
    from that have "unat (hexDigit d) = 55" by simp
    with u show ?thesis by (simp split: if_splits)
  qed
qed

lemma byte_from_nibbles:
  fixes a :: byte
  assumes "unat a div 16 = h" and "unat a mod 16 = l"
  shows "a = of_nat (16 * h + l)"
proof -
  have "unat a = 16 * h + l" using assms by presburger
  then have "of_nat (unat a) = (of_nat (16 * h + l) :: byte)" by simp
  then show ?thesis by simp
qed

text \<open>
  The comparison takes eight hexadecimal digits of the ATR (four bytes) and compares
  them with the four digits \<^verbatim>\<open>3b67\<close>: the alternate prefix is chosen only for an ATR that
  is exactly the two bytes 3B 67.
\<close>

lemma alternate_prefix_iff:
  "determineRequestCommand c = [0x00, 0xc0, 0x00, 0x01] \<longleftrightarrow> getAtr c = [0x3b, 0x67]"
proof
  assume "getAtr c = [0x3b, 0x67]"
  then show "determineRequestCommand c = [0x00, 0xc0, 0x00, 0x01]"
    by (simp add: determineRequestCommand_def slice_def toHex_def hexDigit_def)
next
  assume "determineRequestCommand c = [0x00, 0xc0, 0x00, 0x01]"
  then have eq: "take 8 (toHex (getAtr c)) = [0x33, 0x62, 0x36, 0x37]"
    by (simp add: determineRequestCommand_def slice_def toHex_3b67 Let_def split: if_splits)
  then have "length (take 8 (toHex (getAtr c))) = 4" by simp
  then have "length (getAtr c) = 2" by (simp add: length_toHex min_def split: if_splits)
  then obtain a b where ab: "getAtr c = [a, b]"
    by (metis (no_types, opaque_lifting) One_nat_def Suc_1 length_0_conv length_Suc_conv)
  have "unat a < 256" "unat b < 256" using unsigned_less[of a, where ?'a = nat] unsigned_less[of b, where ?'a = nat] by simp_all
  then have la: "unat a div 16 < 16" "unat a mod 16 < 16" "unat b div 16 < 16"
      "unat b mod 16 < 16"
    by arith+
  from eq have "hexDigit (unat a div 16) = 0x33" "hexDigit (unat a mod 16) = 0x62"
      "hexDigit (unat b div 16) = 0x36" "hexDigit (unat b mod 16) = 0x37"
    by (simp_all add: ab toHex_def)
  then have "unat a div 16 = 3" "unat a mod 16 = 11" "unat b div 16 = 6" "unat b mod 16 = 7"
    using la hexDigit_cases by blast+
  then have "a = 0x3b" "b = 0x67"
    using byte_from_nibbles[of a 3 11] byte_from_nibbles[of b 6 7] by simp_all
  then show "getAtr c = [0x3b, 0x67]" using ab by simp
qed

text \<open>
  C1. An ATR that begins with 3B 67 and goes on, as every real ATR does, gets the default
  request prefix, not the alternate one the claim states.
\<close>

theorem atr_3B67_prefix_selects_default:
  "take 2 thaiCardAtr = [0x3b, 0x67]
   \<and> determineRequestCommand \<lparr>getAtr = thaiCardAtr, issue = issue deadCard, state0 = ()\<rparr>
       = [0x00, 0xc0, 0x00, 0x00]"
  by (simp add: thaiCardAtr_def determineRequestCommand_def slice_def toHex_def hexDigit_def)

section \<open>Name parsing: proofs\<close>

lemma trimOrEmpty_Some: "trimOrEmpty (Some s) = trim s"
  by (simp add: trimOrEmpty_def)

lemma upto_four_cases:
  obtains "xs = []" | a where "xs = [a]" | a b where "xs = [a, b]"
    | a b c where "xs = [a, b, c]" | a b c d rest where "xs = a # b # c # d # rest"
proof (cases xs)
  case Nil
  then show ?thesis using that(1) by simp
next
  case c1: (Cons a t1)
  show ?thesis
  proof (cases t1)
    case Nil
    with c1 show ?thesis using that(2) by simp
  next
    case c2: (Cons b t2)
    show ?thesis
    proof (cases t2)
      case Nil
      with c1 c2 show ?thesis using that(3) by simp
    next
      case c3: (Cons c t3)
      show ?thesis
      proof (cases t3)
        case Nil
        with c1 c2 c3 show ?thesis using that(4) by simp
      next
        case (Cons d rest)
        with c1 c2 c3 show ?thesis using that(5) by simp
      qed
    qed
  qed
qed

lemma name_components_of_tokens:
  "\<lparr>prefix = trimOrEmpty (elementAt tokens 0), firstname = trimOrEmpty (elementAt tokens 1),
    middlename = trimOrEmpty (elementAt tokens 2), lastname = trimOrEmpty (elementAt tokens 3),
    fullname = f\<rparr>
   = \<lparr>prefix = nameParts tokens ! 0, firstname = nameParts tokens ! 1,
      middlename = nameParts tokens ! 2, lastname = nameParts tokens ! 3, fullname = f\<rparr>"
  by (cases tokens rule: upto_four_cases)
    (simp_all add: nameParts_def elementAt_def trimOrEmpty_def)

lemma nameParts_list:
  "[nameParts tokens ! 0, nameParts tokens ! 1, nameParts tokens ! 2, nameParts tokens ! 3]
   = nameParts tokens"
  by (cases tokens rule: upto_four_cases) (simp_all add: nameParts_def numeral_eq_Suc)

lemma trim_decompose:
  "\<exists>l r. s = l @ trim s @ r \<and> list_all isWhiteSpace l \<and> list_all isWhiteSpace r"
proof -
  define rest where "rest = dropWhile isWhiteSpace s"
  have 1: "s = takeWhile isWhiteSpace s @ rest" by (simp add: rest_def)
  have "rev (takeWhile isWhiteSpace (rev rest) @ dropWhile isWhiteSpace (rev rest))
        = rev (rev rest)"
    by (simp only: takeWhile_dropWhile_id)
  then have "rev (dropWhile isWhiteSpace (rev rest)) @ rev (takeWhile isWhiteSpace (rev rest))
             = rest"
    by (simp only: rev_append rev_rev_ident)
  then have 2: "rest = trim s @ rev (takeWhile isWhiteSpace (rev rest))"
    by (simp only: trim_def rest_def)
  have 3: "list_all isWhiteSpace (takeWhile isWhiteSpace s)"
    by (simp add: list_all_iff) (meson set_takeWhileD)
  have 4: "list_all isWhiteSpace (rev (takeWhile isWhiteSpace (rev rest)))"
    by (simp add: list_all_iff) (meson set_takeWhileD)
  from 1 2 have "s = takeWhile isWhiteSpace s @ trim s @ rev (takeWhile isWhiteSpace (rev rest))"
    by simp
  with 3 4 show ?thesis by blast
qed

lemma trimmed_trim: "trimmed (trim s)"
proof (cases "trim s = []")
  case True
  then show ?thesis by (simp add: trimmed_def)
next
  case False
  define rest where "rest = dropWhile isWhiteSpace s"
  define ending where "ending = dropWhile isWhiteSpace (rev rest)"
  have t: "trim s = rev ending" by (simp add: trim_def rest_def ending_def)
  with False have b: "ending \<noteq> []" by simp
  then have r: "rest \<noteq> []" by (auto simp: ending_def)
  have l: "\<not> isWhiteSpace (last (trim s))"
    unfolding t using b hd_dropWhile[of isWhiteSpace "rev rest"]
    by (simp add: last_rev ending_def)
  have "last ending = last (rev rest)"
    using b unfolding ending_def
    by (metis append_Nil2 b ending_def last_appendR takeWhile_dropWhile_id)
  then have "hd (trim s) = hd rest"
    unfolding t using b r by (simp add: hd_rev last_rev)
  moreover have "\<not> isWhiteSpace (hd rest)"
    using r hd_dropWhile[of isWhiteSpace s] by (simp add: rest_def)
  ultimately show ?thesis using l by (simp add: trimmed_def)
qed

lemma trimmed_trimOrEmpty: "trimmed (trimOrEmpty part)"
  by (cases part) (simp_all add: trimOrEmpty_def trimmed_trim, simp add: trimmed_def)

lemma name_parts_equation:
  "parseNameComponents ext decodedData =
     (let parts = nameParts (split 0x23 (trim (bufferToString ext (sliceEnd 2 decodedData))))
      in \<lparr>prefix = parts ! 0, firstname = parts ! 1, middlename = parts ! 2,
          lastname = parts ! 3,
          fullname = trim (join [0x20] (filter (\<lambda>part. part \<noteq> []) parts))\<rparr>)"
proof -
  define tokens where "tokens = split 0x23 (trim (bufferToString ext (sliceEnd 2 decodedData)))"
  have "parseNameComponents ext decodedData =
        \<lparr>prefix = nameParts tokens ! 0, firstname = nameParts tokens ! 1,
          middlename = nameParts tokens ! 2, lastname = nameParts tokens ! 3,
          fullname = trim (join [0x20] (filter (\<lambda>part. length part > 0)
             [nameParts tokens ! 0, nameParts tokens ! 1, nameParts tokens ! 2,
              nameParts tokens ! 3]))\<rparr>"
    unfolding parseNameComponents_def Let_def tokens_def [symmetric] name_components_of_tokens
    by (simp only: NameComponents.simps NameComponents.update_convs)
  then have "parseNameComponents ext decodedData =
        \<lparr>prefix = nameParts tokens ! 0, firstname = nameParts tokens ! 1,
          middlename = nameParts tokens ! 2, lastname = nameParts tokens ! 3,
          fullname = trim (join [0x20] (filter (\<lambda>part. part \<noteq> []) (nameParts tokens)))\<rparr>"
    by (simp only: nameParts_list length_greater_0_conv)
  then show ?thesis by (simp only: Let_def tokens_def)
qed

lemma components_trimmed:
  "list_all trimmed
     [prefix (parseNameComponents ext decodedData),
      firstname (parseNameComponents ext decodedData),
      middlename (parseNameComponents ext decodedData),
      lastname (parseNameComponents ext decodedData),
      fullname (parseNameComponents ext decodedData)]"
  by (simp add: parseNameComponents_def Let_def trimmed_trimOrEmpty trimmed_trim)

text \<open>
  C9. \<^verbatim>\<open>parseNameComponents\<close> splits the footer-stripped, trimmed text on \<^verbatim>\<open>#\<close>, keeps the
  first four tokens (trimmed; a missing token is empty, a fifth and later ones are
  ignored) as prefix, first, middle and last name, and the full name is the non-empty
  ones joined by single spaces, trimmed. The example with an empty last name gives the
  three names joined by spaces. Trimming is what it should be: \<^verbatim>\<open>trim\<close> removes white
  space from the two ends only and leaves a text that neither starts nor ends with
  white space, so no component and no full name does.
\<close>

theorem name_parsing:
  "parseNameComponents ext decodedData =
     (let parts = nameParts (split 0x23 (trim (bufferToString ext (sliceEnd 2 decodedData))))
      in \<lparr>prefix = parts ! 0, firstname = parts ! 1, middlename = parts ! 2,
          lastname = parts ! 3,
          fullname = trim (join [0x20] (filter (\<lambda>part. part \<noteq> []) parts))\<rparr>)
   \<and> (bufferToString ext (sliceEnd 2 decodedData) = exampleName
        \<longrightarrow> fullname (parseNameComponents ext decodedData) = exampleFullname)
   \<and> (\<exists>l r. s = l @ trim s @ r \<and> list_all isWhiteSpace l \<and> list_all isWhiteSpace r)
   \<and> trimmed (trim s)
   \<and> list_all trimmed
        [prefix (parseNameComponents ext decodedData),
         firstname (parseNameComponents ext decodedData),
         middlename (parseNameComponents ext decodedData),
         lastname (parseNameComponents ext decodedData),
         fullname (parseNameComponents ext decodedData)]"
proof -
  have b: "fullname (parseNameComponents ext decodedData) = exampleFullname"
    if "bufferToString ext (sliceEnd 2 decodedData) = exampleName"
    unfolding parseNameComponents_def that
    by (simp add: exampleName_def exampleFullname_def trim_def isWhiteSpace_def elementAt_def
        trimOrEmpty_def)
  from name_parts_equation[of ext decodedData] b trim_decompose[of s] trimmed_trim[of s]
    components_trimmed[of ext decodedData]
  show ?thesis by blast
qed

theorem name_parsing_witness:
  "fullname (parseNameComponents tis620Collaborators exampleNameBuffer) = exampleFullname
   \<and> parseNameComponents tis620Collaborators examplePaddedBuffer
       = \<lparr>prefix = [0x0E19, 0x0E32, 0x0E22],
          firstname = [0x0E2A, 0x0E21, 0x0E0A, 0x0E32, 0x0E22],
          middlename = [0x0E43, 0x0E08, 0x0E14, 0x0E35],
          lastname = [],
          fullname = exampleFullname\<rparr>"
proof -
  note t = name_parsing[of tis620Collaborators]
  have "bufferToString tis620Collaborators (sliceEnd 2 exampleNameBuffer) = exampleName"
    by (simp add: tis620Collaborators_def sliceEnd_def exampleNameBuffer_def exampleName_def)
  with t[of exampleNameBuffer]
  have a: "fullname (parseNameComponents tis620Collaborators exampleNameBuffer) = exampleFullname"
    by blast
  have p: "bufferToString tis620Collaborators (sliceEnd 2 examplePaddedBuffer)
           = [0x20, 0x20, 0x0E19, 0x0E32, 0x0E22, 0x20, 0x23, 0x20, 0x0E2A, 0x0E21, 0x0E0A,
              0x0E32, 0x0E22, 0x23, 0x0E43, 0x0E08, 0x0E14, 0x0E35, 0x20, 0x23, 0x20, 0x20]"
    by (simp add: tis620Collaborators_def sliceEnd_def examplePaddedBuffer_def)
  from t[of examplePaddedBuffer]
  have "parseNameComponents tis620Collaborators examplePaddedBuffer =
     (let parts = nameParts (split 0x23 (trim (bufferToString tis620Collaborators
                     (sliceEnd 2 examplePaddedBuffer))))
      in \<lparr>prefix = parts ! 0, firstname = parts ! 1, middlename = parts ! 2,
          lastname = parts ! 3,
          fullname = trim (join [0x20] (filter (\<lambda>part. part \<noteq> []) parts))\<rparr>)"
    by blast
  then have b: "parseNameComponents tis620Collaborators examplePaddedBuffer
       = \<lparr>prefix = [0x0E19, 0x0E32, 0x0E22],
          firstname = [0x0E2A, 0x0E21, 0x0E0A, 0x0E32, 0x0E22],
          middlename = [0x0E43, 0x0E08, 0x0E14, 0x0E35],
          lastname = [],
          fullname = exampleFullname\<rparr>"
    unfolding p
    by (simp add: nameParts_def trim_def isWhiteSpace_def exampleFullname_def Let_def)
  from a b show ?thesis by blast
qed

section \<open>Photo reassembly: proofs\<close>

lemma andThen_resolve [simp]: "andThen (resolve x) f = f x"
  by (rule ext) (simp add: andThen_def resolve_def)

lemma andThen_assoc: "andThen (andThen m f) g = andThen m (\<lambda>x. andThen (f x) g)"
  by (rule ext) (simp add: andThen_def split: prod.splits sum.splits)

lemma andThen_Inr:
  "andThen m f w = (Inr y, w') \<longleftrightarrow> (\<exists>x w1. m w = (Inr x, w1) \<and> f x w1 = (Inr y, w'))"
  by (auto simp: andThen_def split: prod.splits sum.splits)

lemma resolve_eq: "resolve x w = (r, w') \<longleftrightarrow> r = Inr x \<and> w' = w"
  by (auto simp: resolve_def)

lemma toHex_append: "toHex (a @ b) = toHex a @ toHex b"
  by (simp add: toHex_def)

lemma toHex_take: "toHex (take n b) = take (2 * n) (toHex b)"
proof (induction b arbitrary: n)
  case Nil
  then show ?case by (simp add: toHex_def)
next
  case (Cons x b)
  show ?case
  proof (cases n)
    case 0
    then show ?thesis by (simp add: toHex_def)
  next
    case (Suc k)
    have "toHex (x # b) = [hexDigit (unat x div 16), hexDigit (unat x mod 16)] @ toHex b"
      by (simp add: toHex_def)
    then show ?thesis using Cons[of k] Suc by (simp add: toHex_def)
  qed
qed

lemma footer_in_hex: "sliceEnd 4 (toHex segment) = toHex (sliceEnd 2 segment)"
proof -
  have "2 * length segment - 4 = 2 * (length segment - 2)" by simp
  then show ?thesis by (simp add: sliceEnd_def toHex_take length_toHex)
qed

lemma join_empty: "join [] parts = concat parts"
  by (induction "[] :: 'a list" parts rule: join.induct) simp_all

lemma toHex_concat: "toHex (concat segments) = concat (map toHex segments)"
  by (induction segments) (simp_all add: toHex_append, simp add: toHex_def)

lemma readPhotoParts_segments:
  "readPhotoParts card' rc commands parts =
     andThen (readSegments card' rc commands) (\<lambda>segments.
     resolve (parts @ map (\<lambda>segment. toHex (sliceEnd 2 segment)) segments))"
proof (induction commands arbitrary: parts)
  case Nil
  then show ?case by simp
next
  case (Cons command rest)
  show ?case by (simp add: Cons andThen_assoc footer_in_hex)
qed

lemma getData_issued:
  "getData card' command rc w = (Inr segment, w')
   \<Longrightarrow> issued w' = issued w @ [command, rc @ sliceLast command]"
  by (auto simp: getData_def andThen_def issueCommand_def resolve_def
      split: prod.splits sum.splits)

lemma readSegments_issued:
  "readSegments card' rc commands w = (Inr segments, w')
   \<Longrightarrow> length segments = length commands \<and> issued w' = issued w @ twoPhase rc commands"
proof (induction commands arbitrary: w segments)
  case Nil
  then show ?case by (simp add: resolve_eq twoPhase_def)
next
  case (Cons command rest)
  from Cons.prems obtain segment w1 segments' where
    g: "getData card' command rc w = (Inr segment, w1)"
    and r: "readSegments card' rc rest w1 = (Inr segments', w')"
    and s: "segments = segment # segments'"
    by (auto simp: andThen_Inr resolve_eq)
  from Cons.IH[OF r] getData_issued[OF g] s show ?case
    by (simp add: twoPhase_def)
qed

text \<open>
  C8. \<^verbatim>\<open>extractPhoto\<close> is the read of the twenty segments followed by a function of
  those segments alone: the hexadecimal text of \<open>S1 \<dots> S20\<close>, each without its last two
  bytes, concatenated in order, handed to \<^verbatim>\<open>hex2imagebase64\<close>. When all reads succeed there
  are twenty segments and the commands issued are \<^verbatim>\<open>CMD_PHOTO1\<close> to \<^verbatim>\<open>CMD_PHOTO20\<close> in that
  order, each followed by its request-prefixed re-read.
\<close>

theorem photo_reassembly:
  "extractPhoto ext card' rc =
     andThen (readSegments card' rc PHOTO_COMMANDS) (\<lambda>segments.
     resolve (hex2imagebase64 ext (toHex (concat (map (sliceEnd 2) segments)))))
   \<and> (readSegments card' rc PHOTO_COMMANDS w = (Inr segments, w')
        \<longrightarrow> length segments = 20
          \<and> issued w' = issued w @ twoPhase rc
               [CMD_PHOTO1, CMD_PHOTO2, CMD_PHOTO3, CMD_PHOTO4, CMD_PHOTO5,
                CMD_PHOTO6, CMD_PHOTO7, CMD_PHOTO8, CMD_PHOTO9, CMD_PHOTO10,
                CMD_PHOTO11, CMD_PHOTO12, CMD_PHOTO13, CMD_PHOTO14, CMD_PHOTO15,
                CMD_PHOTO16, CMD_PHOTO17, CMD_PHOTO18, CMD_PHOTO19, CMD_PHOTO20])"
proof -
  have "concat (map (\<lambda>segment. toHex (sliceEnd 2 segment)) segments)
        = toHex (concat (map (sliceEnd 2) segments))" for segments :: "buffer list"
    by (simp add: toHex_concat comp_def)
  then have a: "extractPhoto ext card' rc =
     andThen (readSegments card' rc PHOTO_COMMANDS) (\<lambda>segments.
     resolve (hex2imagebase64 ext (toHex (concat (map (sliceEnd 2) segments)))))"
    by (simp add: extractPhoto_def readPhotoParts_segments andThen_assoc join_empty Let_def)
  have b: "length segments = 20 \<and> issued w' = issued w @ twoPhase rc PHOTO_COMMANDS"
    if "readSegments card' rc PHOTO_COMMANDS w = (Inr segments, w')"
    using readSegments_issued[OF that] by (simp add: PHOTO_COMMANDS_def)
  from a b show ?thesis unfolding PHOTO_COMMANDS_def by blast
qed

lemma steady_getData:
  "getData (steadyCard answer) command rc w
   = (Inr answer, w\<lparr>issued := issued w @ [command, rc @ sliceLast command]\<rparr>)"
  by (simp add: getData_def andThen_def issueCommand_def resolve_def steadyCard_def)

lemma steady_readSegments:
  "readSegments (steadyCard answer) rc commands w
   = (Inr (replicate (length commands) answer),
      w\<lparr>issued := issued w @ twoPhase rc commands\<rparr>)"
proof (induction commands arbitrary: w)
  case Nil
  then show ?case by (simp add: resolve_def twoPhase_def)
next
  case (Cons command rest)
  show ?case
    by (simp add: andThen_def steady_getData Cons resolve_def twoPhase_def)
qed

theorem photo_reassembly_witness:
  "extractPhoto plainCollaborators (steadyCard [0xAB, 0xCD, 0x90, 0x00]) [0x00, 0xc0, 0x00, 0x00]
     \<lparr>cardState = (), issued = []\<rparr>
   = (Inr (concat (replicate 20 (ascii ''abcd''))),
      \<lparr>cardState = (),
       issued = twoPhase [0x00, 0xc0, 0x00, 0x00]
               [CMD_PHOTO1, CMD_PHOTO2, CMD_PHOTO3, CMD_PHOTO4, CMD_PHOTO5,
                CMD_PHOTO6, CMD_PHOTO7, CMD_PHOTO8, CMD_PHOTO9, CMD_PHOTO10,
                CMD_PHOTO11, CMD_PHOTO12, CMD_PHOTO13, CMD_PHOTO14, CMD_PHOTO15,
                CMD_PHOTO16, CMD_PHOTO17, CMD_PHOTO18, CMD_PHOTO19, CMD_PHOTO20]\<rparr>)"
proof -
  let ?card = "steadyCard [0xAB, 0xCD, 0x90, 0x00]"
  let ?rc = "[0x00, 0xc0, 0x00, 0x00] :: byte list"
  let ?w = "\<lparr>cardState = (), issued = []\<rparr> :: unit world"
  have r: "readSegments ?card ?rc PHOTO_COMMANDS ?w
           = (Inr (replicate 20 [0xAB, 0xCD, 0x90, 0x00]),
              ?w\<lparr>issued := issued ?w @ twoPhase ?rc PHOTO_COMMANDS\<rparr>)"
    unfolding steady_readSegments by (simp add: PHOTO_COMMANDS_def eval_nat_numeral)
  note t = photo_reassembly[of plainCollaborators ?card ?rc ?w
      "replicate 20 [0xAB, 0xCD, 0x90, 0x00]"
      "?w\<lparr>issued := issued ?w @ twoPhase ?rc PHOTO_COMMANDS\<rparr>"]
  have h: "toHex (concat (map (sliceEnd 2) (replicate 20 [0xAB, 0xCD, 0x90, 0x00])))
           = concat (replicate 20 (ascii ''abcd''))"
  proof -
    have 1: "sliceEnd 2 [0xAB, 0xCD, 0x90, 0x00 :: byte] = [0xAB, 0xCD]"
      by (simp add: sliceEnd_def)
    have 2: "toHex [0xAB, 0xCD] = ascii ''abcd''"
      by (simp add: toHex_def hexDigit_def ascii_def)
    show ?thesis by (simp only: toHex_concat map_replicate 1 2)
  qed
  from t r have "extractPhoto plainCollaborators ?card ?rc ?w
      = andThen (readSegments ?card ?rc PHOTO_COMMANDS) (\<lambda>segments.
        resolve (hex2imagebase64 plainCollaborators
          (toHex (concat (map (sliceEnd 2) segments))))) ?w"
    by simp
  also have "\<dots> = (Inr (concat (replicate 20 (ascii ''abcd''))),
                   ?w\<lparr>issued := issued ?w @ twoPhase ?rc PHOTO_COMMANDS\<rparr>)"
    unfolding andThen_def r by (simp add: resolve_def h[unfolded map_replicate] plainCollaborators_def)
  finally show ?thesis by (simp add: PHOTO_COMMANDS_def)
qed

section \<open>Insurance read: proofs\<close>

lemma getData_rejected_issued:
  "getData card' command rc w = (Inl e, w')
   \<Longrightarrow> issued w' = issued w @ [command]
       \<or> issued w' = issued w @ [command, rc @ sliceLast command]"
  by (auto simp: getData_def andThen_def issueCommand_def resolve_def
      split: prod.splits sum.splits)

lemma applyReads_Cons:
  "applyReads (s # steps) (answer # answers) d = applyReads steps answers (snd s answer d)"
  by (simp add: applyReads_def)

lemma nhso_commands: "map fst (nhsoFieldReads ext) = NHSO_COMMANDS"
  by (simp add: nhsoFieldReads_def NHSO_COMMANDS_def)

lemma readFields_answers:
  "answersUntilFailure card' rc (map fst steps) w = (answers, w')
   \<Longrightarrow> readFields card' rc steps d w
       = (applyReads (take (length answers) steps) answers d, w')"
proof (induction steps arbitrary: d w answers w')
  case Nil
  then show ?case by (simp add: applyReads_def)
next
  case (Cons s steps)
  obtain command assign where s: "s = (command, assign)" by (cases s)
  obtain r w1 where g: "getData card' command rc w = (r, w1)"
    by (cases "getData card' command rc w")
  show ?case
  proof (cases r)
    case (Inl e)
    with Cons.prems g s have "answers = []" "w' = w1" by simp_all
    then show ?thesis using g Inl s by (simp add: applyReads_def)
  next
    case (Inr answer)
    obtain others w2 where o: "answersUntilFailure card' rc (map fst steps) w1 = (others, w2)"
      by (cases "answersUntilFailure card' rc (map fst steps) w1")
    with Cons.prems g s Inr have a: "answers = answer # others" "w' = w2" by simp_all
    from Cons.IH[OF o, of "assign answer d"] show ?thesis
      using g Inr s a by (simp add: applyReads_Cons)
  qed
qed

lemma answers_chain:
  "answersUntilFailure card' rc commands w = (answers, w')
   \<Longrightarrow> length answers \<le> length commands
     \<and> (\<exists>wk. readsSucceed card' rc (take (length answers) commands) w answers wk
             \<and> (if length answers = length commands then w' = wk
                 else \<exists>e. getData card' (commands ! length answers) rc wk = (Inl e, w')))"
proof (induction commands arbitrary: w answers w')
  case Nil
  then show ?case by simp
next
  case (Cons command commands)
  obtain r w1 where g: "getData card' command rc w = (r, w1)"
    by (cases "getData card' command rc w")
  show ?case
  proof (cases r)
    case (Inl e)
    with Cons.prems g have "answers = []" "w' = w1" by simp_all
    then show ?thesis using g Inl by simp
  next
    case (Inr answer)
    obtain others w2 where o: "answersUntilFailure card' rc commands w1 = (others, w2)"
      by (cases "answersUntilFailure card' rc commands w1")
    with Cons.prems g Inr have a: "answers = answer # others" "w' = w2" by simp_all
    from Cons.IH[OF o] obtain wk where
      l: "length others \<le> length commands"
      and k: "readsSucceed card' rc (take (length others) commands) w1 others wk"
      and e: "if length others = length commands then w2 = wk
              else \<exists>e. getData card' (commands ! length others) rc wk = (Inl e, w2)"
      by blast
    have "readsSucceed card' rc (take (length answers) (command # commands)) w answers wk"
      using k g Inr a by simp
    moreover have "if length answers = length (command # commands) then w' = wk
        else \<exists>e. getData card' ((command # commands) ! length answers) rc wk = (Inl e, w')"
      using e a by (simp split: if_splits)
    ultimately show ?thesis using l a by auto
  qed
qed

lemma answers_issued:
  "answersUntilFailure card' rc commands w = (answers, w')
   \<Longrightarrow> \<exists>n. issued w' = issued w @ take n (twoPhase rc commands)
         \<and> (if length answers = length commands then n = 2 * length answers
             else n = 2 * length answers + 1 \<or> n = 2 * length answers + 2)"
proof (induction commands arbitrary: w answers w')
  case Nil
  then show ?case by (simp add: twoPhase_def)
next
  case (Cons command commands)
  have tp: "twoPhase rc (command # commands)
            = [command, rc @ sliceLast command] @ twoPhase rc commands"
    by (simp add: twoPhase_def)
  obtain r w1 where g: "getData card' command rc w = (r, w1)"
    by (cases "getData card' command rc w")
  show ?case
  proof (cases r)
    case (Inl e)
    with Cons.prems g have a: "answers = []" "w' = w1" by simp_all
    from getData_rejected_issued[OF g[unfolded Inl]] a
    have "issued w' = issued w @ take 1 (twoPhase rc (command # commands))
        \<or> issued w' = issued w @ take 2 (twoPhase rc (command # commands))"
      unfolding tp by auto
    then show ?thesis
    proof
      assume "issued w' = issued w @ take 1 (twoPhase rc (command # commands))"
      then have "issued w' = issued w @ take 1 (twoPhase rc (command # commands))
         \<and> (if length answers = length (command # commands) then (1::nat) = 2 * length answers
             else (1::nat) = 2 * length answers + 1 \<or> (1::nat) = 2 * length answers + 2)"
        using a by simp
      then show ?thesis by (rule exI)
    next
      assume "issued w' = issued w @ take 2 (twoPhase rc (command # commands))"
      then have "issued w' = issued w @ take 2 (twoPhase rc (command # commands))
         \<and> (if length answers = length (command # commands) then (2::nat) = 2 * length answers
             else (2::nat) = 2 * length answers + 1 \<or> (2::nat) = 2 * length answers + 2)"
        using a by simp
      then show ?thesis by (rule exI)
    qed
  next
    case (Inr answer)
    obtain others w2 where o: "answersUntilFailure card' rc commands w1 = (others, w2)"
      by (cases "answersUntilFailure card' rc commands w1")
    with Cons.prems g Inr have a: "answers = answer # others" "w' = w2" by simp_all
    from Cons.IH[OF o] obtain n where
      i: "issued w2 = issued w1 @ take n (twoPhase rc commands)"
      and n: "if length others = length commands then n = 2 * length others
              else n = 2 * length others + 1 \<or> n = 2 * length others + 2"
      by blast
    have i1: "issued w1 = issued w @ [command, rc @ sliceLast command]"
      using getData_issued[OF g[unfolded Inr]] .
    have "issued w' = issued w @ take (n + 2) (twoPhase rc (command # commands))
         \<and> (if length answers = length (command # commands) then n + 2 = 2 * length answers
             else n + 2 = 2 * length answers + 1 \<or> n + 2 = 2 * length answers + 2)"
      using i n i1 a unfolding tp by (simp split: if_splits)
    then show ?thesis by (rule exI)
  qed
qed

lemma applyReads_present:
  assumes upd: "\<And>i answer d. i < length steps \<Longrightarrow>
                  fieldsPresent (snd (steps ! i) answer d) = (fieldsPresent d)[i := True]"
    and len: "length steps = 9"
  shows "k \<le> length steps \<Longrightarrow> length answers = k \<Longrightarrow>
         fieldsPresent (applyReads (take k steps) answers d)
         = replicate k True @ drop k (fieldsPresent d)"
proof (induction k arbitrary: answers)
  case 0
  then show ?case by (simp add: applyReads_def)
next
  case (Suc k)
  from Suc.prems obtain front answer where a: "answers = front @ [answer]" "length front = k"
    by (metis length_Suc_conv_rev)
  have t: "take (Suc k) steps = take k steps @ [steps ! k]"
    using Suc.prems by (simp add: take_Suc_conv_app_nth)
  have "applyReads (take (Suc k) steps) answers d
        = snd (steps ! k) answer (applyReads (take k steps) front d)"
    using Suc.prems a by (simp add: applyReads_def t)
  then have "fieldsPresent (applyReads (take (Suc k) steps) answers d)
        = (replicate k True @ drop k (fieldsPresent d))[k := True]"
    using upd[of k] Suc.IH[of front] Suc.prems a by simp
  also have "\<dots> = replicate (Suc k) True @ drop (Suc k) (fieldsPresent d)"
  proof -
    have "k < length (fieldsPresent d)" using Suc.prems len by (simp add: fieldsPresent_def)
    then have "drop k (fieldsPresent d) = fieldsPresent d ! k # drop (Suc k) (fieldsPresent d)"
      by (simp add: Cons_nth_drop_Suc)
    then show ?thesis by (simp add: list_update_append replicate_append_same)
  qed
  finally show ?case .
qed

lemma nhsoFieldReads_assign:
  assumes "i < length (nhsoFieldReads ext)"
  shows "fieldsPresent (snd (nhsoFieldReads ext ! i) answer d) = (fieldsPresent d)[i := True]"
proof -
  have each: "list_all (\<lambda>j. fieldsPresent (snd (nhsoFieldReads ext ! j) answer d)
                              = (fieldsPresent d)[j := True])
                [0, 1, 2, 3, 4, 5, 6, 7, 8]"
    by (simp add: nhsoFieldReads_def fieldsPresent_def)
  from assms have "i < 9" by (simp add: nhsoFieldReads_def)
  then have "i \<in> set [0, 1, 2, 3, 4, 5, 6, 7, 8]" by (simp; presburger)
  with each show ?thesis unfolding list_all_iff by blast
qed

text \<open>
  C3, as the code has it. When the applet selection succeeds, \<^verbatim>\<open>getInfo\<close> resolves with
  the record made of exactly the fields read before the first failed read. With
  \<open>answers\<close> the answers up to the first failure: the record is the empty record after the
  assignments of the first \<open>length answers\<close> fields, each from its own answer; it holds those
  fields and none of the later ones; each of these reads resolves with its answer, and
  when fewer than nine were made the read of the next command throws; the commands issued
  after the selection are those of the reads that resolved and, when one failed, its one
  or two commands, so that nothing is read after the first failure.
\<close>

theorem nhso_read_stops_at_first_failure:
  assumes "issueCommand card' nhso_SELECT w = (Inr selected, w1)"
    and "answersUntilFailure card' rc NHSO_COMMANDS w1 = (answers, w')"
  shows "NhsoApplet_getInfo ext card' rc w
           = (Inr (applyReads (take (length answers) (nhsoFieldReads ext)) answers
                     emptyNhsoData), w')
         \<and> map fst (nhsoFieldReads ext) = NHSO_COMMANDS
         \<and> length answers \<le> 9
         \<and> fieldsPresent (applyReads (take (length answers) (nhsoFieldReads ext)) answers
                            emptyNhsoData)
             = replicate (length answers) True @ replicate (9 - length answers) False
         \<and> (\<exists>wk. readsSucceed card' rc (take (length answers) NHSO_COMMANDS) w1 answers wk
                 \<and> (if length answers = 9 then w' = wk
                     else \<exists>e. getData card' (NHSO_COMMANDS ! length answers) rc wk
                              = (Inl e, w')))
         \<and> (\<exists>n. issued w' = issued w @ nhso_SELECT # take n (twoPhase rc NHSO_COMMANDS)
                \<and> (if length answers = 9 then n = 18
                    else n = 2 * length answers + 1 \<or> n = 2 * length answers + 2))"
proof -
  have len: "length (nhsoFieldReads ext) = 9" by (simp add: nhsoFieldReads_def)
  have lc: "length NHSO_COMMANDS = 9" by (simp add: NHSO_COMMANDS_def)
  note ans = assms(2)
  have r: "readFields card' rc (nhsoFieldReads ext) emptyNhsoData w1
           = (applyReads (take (length answers) (nhsoFieldReads ext)) answers emptyNhsoData, w')"
    by (rule readFields_answers) (simp add: nhso_commands ans)
  have g: "NhsoApplet_getInfo ext card' rc w
           = (Inr (applyReads (take (length answers) (nhsoFieldReads ext)) answers
                     emptyNhsoData), w')"
    using assms(1) r
    by (simp add: NhsoApplet_getInfo_def tryCatch_def andThen_def initializeNhsoCard_def
        resolve_def extractNhsoData_def)
  from answers_chain[OF ans] have k: "length answers \<le> 9"
    and c: "\<exists>wk. readsSucceed card' rc (take (length answers) NHSO_COMMANDS) w1 answers wk
                 \<and> (if length answers = 9 then w' = wk
                     else \<exists>e. getData card' (NHSO_COMMANDS ! length answers) rc wk
                              = (Inl e, w'))"
    unfolding lc by blast+
  have e: "fieldsPresent emptyNhsoData = replicate 9 False"
    by (simp add: fieldsPresent_def emptyNhsoData_def eval_nat_numeral)
  have p: "fieldsPresent (applyReads (take (length answers) (nhsoFieldReads ext)) answers
                            emptyNhsoData)
             = replicate (length answers) True @ replicate (9 - length answers) False"
    using applyReads_present[of "nhsoFieldReads ext" "length answers" answers emptyNhsoData,
        OF nhsoFieldReads_assign len] k len
    by (simp add: e)
  have w1: "issued w1 = issued w @ [nhso_SELECT]"
    using assms(1) by (auto simp: issueCommand_def split: prod.splits)
  from answers_issued[OF ans] obtain n where
    "issued w' = issued w1 @ take n (twoPhase rc NHSO_COMMANDS)"
    and "if length answers = length NHSO_COMMANDS then n = 2 * length answers
         else n = 2 * length answers + 1 \<or> n = 2 * length answers + 2"
    by blast
  then have "issued w' = issued w @ nhso_SELECT # take n (twoPhase rc NHSO_COMMANDS)
                \<and> (if length answers = 9 then n = 18
                    else n = 2 * length answers + 1 \<or> n = 2 * length answers + 2)"
    unfolding lc w1 by (simp split: if_splits)
  then have i: "\<exists>n. issued w' = issued w @ nhso_SELECT # take n (twoPhase rc NHSO_COMMANDS)
                \<and> (if length answers = 9 then n = 18
                    else n = 2 * length answers + 1 \<or> n = 2 * length answers + 2)"
    by (rule exI)
  from g nhso_commands[of ext] k p c i show ?thesis by blast
qed

lemma rejecting_SUB_INSCL_run:
  "NhsoApplet_getInfo plainCollaborators (rejecting CMD_SUB_INSCL exampleAnswer)
     [0x00, 0xc0, 0x00, 0x00] freshWorld
   = (Inr (emptyNhsoData\<lparr>mainInscl := Some (ascii ''25680315'')\<rparr>),
      \<lparr>cardState = (),
       issued = [nhso_SELECT, CMD_MAIN_INSCL, [0x00, 0xc0, 0x00, 0x00, 0x3c], CMD_SUB_INSCL]\<rparr>)"
  by (simp add: NhsoApplet_getInfo_def tryCatch_def andThen_def initializeNhsoCard_def
      resolve_def extractNhsoData_def nhsoFieldReads_def getData_def issueCommand_def
      rejecting_def freshWorld_def sliceLast_def nhso_SELECT_def CMD_MAIN_INSCL_def
      CMD_SUB_INSCL_def plainCollaborators_def exampleAnswer_def sliceEnd_def trim_def
      isWhiteSpace_def ascii_def emptyNhsoData_def)

text \<open>
  C3 as stated fails: on a card that rejects only the read of the sub insurance level,
  the record holds the main insurance level alone; the main hospital name, whose read
  the card would answer, is never asked for.
\<close>

theorem nhso_read_skips_later_fields:
  "NhsoApplet_getInfo plainCollaborators (rejecting CMD_SUB_INSCL exampleAnswer)
     [0x00, 0xc0, 0x00, 0x00] freshWorld
   = (Inr (emptyNhsoData\<lparr>mainInscl := Some (ascii ''25680315'')\<rparr>),
      \<lparr>cardState = (),
       issued = [nhso_SELECT, CMD_MAIN_INSCL, [0x00, 0xc0, 0x00, 0x00, 0x3c], CMD_SUB_INSCL]\<rparr>)
   \<and> fst (getData (rejecting CMD_SUB_INSCL exampleAnswer) CMD_MAIN_HOSPITAL_NAME
            [0x00, 0xc0, 0x00, 0x00]
            \<lparr>cardState = (),
             issued = [nhso_SELECT, CMD_MAIN_INSCL, [0x00, 0xc0, 0x00, 0x00, 0x3c],
                       CMD_SUB_INSCL]\<rparr>)
     = Inr exampleAnswer
   \<and> mainHospitalName (emptyNhsoData\<lparr>mainInscl := Some (ascii ''25680315'')\<rparr>) = None"
proof -
  have "fst (getData (rejecting CMD_SUB_INSCL exampleAnswer) CMD_MAIN_HOSPITAL_NAME
            [0x00, 0xc0, 0x00, 0x00]
            \<lparr>cardState = (),
             issued = [nhso_SELECT, CMD_MAIN_INSCL, [0x00, 0xc0, 0x00, 0x00, 0x3c],
                       CMD_SUB_INSCL]\<rparr>)
     = Inr exampleAnswer"
    by (simp add: getData_def andThen_def issueCommand_def resolve_def rejecting_def
        sliceLast_def CMD_MAIN_HOSPITAL_NAME_def CMD_SUB_INSCL_def)
  moreover have "mainHospitalName (emptyNhsoData\<lparr>mainInscl := Some (ascii ''25680315'')\<rparr>) = None"
    by (simp add: emptyNhsoData_def)
  ultimately show ?thesis using rejecting_SUB_INSCL_run by simp
qed

lemma steady_answers:
  "answersUntilFailure (steadyCard answer) rc commands w
   = (replicate (length commands) answer, w\<lparr>issued := issued w @ twoPhase rc commands\<rparr>)"
proof (induction commands arbitrary: w)
  case Nil
  then show ?case by (simp add: twoPhase_def)
next
  case (Cons command commands)
  show ?case by (simp add: steady_getData Cons twoPhase_def)
qed

theorem nhso_read_stops_at_first_failure_witness:
  "NhsoApplet_getInfo plainCollaborators (rejecting CMD_SUB_INSCL exampleAnswer)
     [0x00, 0xc0, 0x00, 0x00] freshWorld
   = (Inr (emptyNhsoData\<lparr>mainInscl := Some (ascii ''25680315'')\<rparr>),
      \<lparr>cardState = (),
       issued = [nhso_SELECT, CMD_MAIN_INSCL, [0x00, 0xc0, 0x00, 0x00, 0x3c], CMD_SUB_INSCL]\<rparr>)
   \<and> fst (NhsoApplet_getInfo plainCollaborators (steadyCard exampleAnswer)
            [0x00, 0xc0, 0x00, 0x00] freshWorld)
     = Inr \<lparr>mainInscl = Some (ascii ''25680315''), subInscl = Some (ascii ''25680315''),
            mainHospitalName = Some (ascii ''25680315''),
            subHospitalName = Some (ascii ''25680315''),
            paidType = Some (ascii ''3235363830333135''),
            nhsoIssueDate = Some (ascii ''2025-03-15''),
            nhsoExpireDate = Some (ascii ''2025-03-15''),
            updateDate = Some (ascii ''2025-03-15''),
            changeHospitalAmount = Some (ascii ''3235363830333135'')\<rparr>"
proof -
  let ?rc = "[0x00, 0xc0, 0x00, 0x00] :: byte list"
  have str: "trim (bufferToString plainCollaborators
                 (sliceEnd 2 (legacyDecode plainCollaborators exampleAnswer)))
              = ascii ''25680315''"
    "trim (bufferToString plainCollaborators (sliceEnd 2 exampleAnswer)) = ascii ''25680315''"
    by (simp_all add: plainCollaborators_def sliceEnd_def exampleAnswer_def trim_def
        isWhiteSpace_def ascii_def)
  have hex: "toHex (sliceEnd 2 exampleAnswer) = ascii ''3235363830333135''"
    by (simp add: sliceEnd_def exampleAnswer_def toHex_def hexDigit_def ascii_def)
  have date: "convertBuddhistDate (ascii ''25680315'') = ascii ''2025-03-15''"
    by (simp add: convertBuddhistDate_def ascii_def substring_def parseInt_def trimStart_def
        isWhiteSpace_def isRadixDigit_def digitValue_def radixValue_def natToString.simps)
  \<comment> \<open>the second read is rejected\<close>
  let ?card = "rejecting CMD_SUB_INSCL exampleAnswer"
  let ?end = "\<lparr>cardState = (),
       issued = [nhso_SELECT, CMD_MAIN_INSCL, [0x00, 0xc0, 0x00, 0x00, 0x3c], CMD_SUB_INSCL]\<rparr>"
  have s: "issueCommand ?card nhso_SELECT freshWorld
           = (Inr exampleAnswer, \<lparr>cardState = (), issued = [nhso_SELECT]\<rparr>)"
    by (simp add: issueCommand_def rejecting_def freshWorld_def nhso_SELECT_def
        CMD_SUB_INSCL_def)
  have a: "answersUntilFailure ?card ?rc NHSO_COMMANDS \<lparr>cardState = (), issued = [nhso_SELECT]\<rparr>
           = ([exampleAnswer], ?end)"
    by (simp add: NHSO_COMMANDS_def getData_def andThen_def issueCommand_def resolve_def
        rejecting_def sliceLast_def CMD_MAIN_INSCL_def CMD_SUB_INSCL_def)
  from nhso_read_stops_at_first_failure[OF s a, of plainCollaborators]
  have "NhsoApplet_getInfo plainCollaborators ?card ?rc freshWorld
        = (Inr (applyReads (take (length [exampleAnswer]) (nhsoFieldReads plainCollaborators))
                  [exampleAnswer] emptyNhsoData), ?end)"
    by blast
  moreover have "applyReads (take (length [exampleAnswer]) (nhsoFieldReads plainCollaborators))
                  [exampleAnswer] emptyNhsoData
                 = emptyNhsoData\<lparr>mainInscl := Some (ascii ''25680315'')\<rparr>"
    by (simp add: nhsoFieldReads_def applyReads_def str)
  ultimately have one: "NhsoApplet_getInfo plainCollaborators ?card ?rc freshWorld
        = (Inr (emptyNhsoData\<lparr>mainInscl := Some (ascii ''25680315'')\<rparr>), ?end)"
    by simp
  \<comment> \<open>no read is rejected\<close>
  let ?card = "steadyCard exampleAnswer"
  have s: "issueCommand ?card nhso_SELECT freshWorld
           = (Inr exampleAnswer, \<lparr>cardState = (), issued = [nhso_SELECT]\<rparr>)"
    by (simp add: issueCommand_def steadyCard_def freshWorld_def)
  let ?nine = "[exampleAnswer, exampleAnswer, exampleAnswer, exampleAnswer, exampleAnswer,
                exampleAnswer, exampleAnswer, exampleAnswer, exampleAnswer]"
  have nine: "replicate (length NHSO_COMMANDS) exampleAnswer = ?nine"
    by (simp add: NHSO_COMMANDS_def)
  note a = steady_answers[of exampleAnswer ?rc NHSO_COMMANDS
      "\<lparr>cardState = (), issued = [nhso_SELECT]\<rparr>", unfolded nine]
  from nhso_read_stops_at_first_failure[OF s a, of plainCollaborators]
  have "fst (NhsoApplet_getInfo plainCollaborators ?card ?rc freshWorld)
        = Inr (applyReads (take (length ?nine) (nhsoFieldReads plainCollaborators))
                 ?nine emptyNhsoData)"
    by (simp only: fst_conv)
  moreover have "applyReads (take (length ?nine) (nhsoFieldReads plainCollaborators))
                 ?nine emptyNhsoData
        = \<lparr>mainInscl = Some (ascii ''25680315''), subInscl = Some (ascii ''25680315''),
            mainHospitalName = Some (ascii ''25680315''),
            subHospitalName = Some (ascii ''25680315''),
            paidType = Some (ascii ''3235363830333135''),
            nhsoIssueDate = Some (ascii ''2025-03-15''),
            nhsoExpireDate = Some (ascii ''2025-03-15''),
            updateDate = Some (ascii ''2025-03-15''),
            changeHospitalAmount = Some (ascii ''3235363830333135'')\<rparr>"
    by (simp add: nhsoFieldReads_def applyReads_def str hex date emptyNhsoData_def)
  ultimately have all: "fst (NhsoApplet_getInfo plainCollaborators ?card ?rc freshWorld)
        = Inr \<lparr>mainInscl = Some (ascii ''25680315''), subInscl = Some (ascii ''25680315''),
            mainHospitalName = Some (ascii ''25680315''),
            subHospitalName = Some (ascii ''25680315''),
            paidType = Some (ascii ''3235363830333135''),
            nhsoIssueDate = Some (ascii ''2025-03-15''),
            nhsoExpireDate = Some (ascii ''2025-03-15''),
            updateDate = Some (ascii ''2025-03-15''),
            changeHospitalAmount = Some (ascii ''3235363830333135'')\<rparr>"
    by simp
  from one all show ?thesis by blast
qed

section \<open>Personal read: proofs\<close>

lemma lookup_default:
  "truthy (createFieldLookup [q_cid] f) \<longleftrightarrow> f = q_cid"
  by (cases f) (simp_all add: createFieldLookup_def truthy_def)

lemma lookup_personal:
  "truthy (createFieldLookup
     [q_cid, q_name, q_nameEn, q_dob, q_gender, q_issuer, q_issueDate, q_expireDate,
      q_address, q_photo] f) \<longleftrightarrow> f \<noteq> q_nhso \<and> f \<noteq> q_laserId"
  by (cases f) (simp_all add: createFieldLookup_def truthy_def)

lemma getInfo_default:
  "PersonalApplet_getInfo ext card' rc None =
     andThen (initializeCard card') (\<lambda>_.
     andThen (extractCitizenId ext card' rc) (\<lambda>v.
     resolve (emptyData\<lparr>cid := Some v\<rparr>)))"
  by (simp add: PersonalApplet_getInfo_def lookup_default readIf_def andThen_assoc)

lemma getInfo_cid:
  "PersonalApplet_getInfo ext card' rc (Some [q_cid]) =
     andThen (initializeCard card') (\<lambda>_.
     andThen (extractCitizenId ext card' rc) (\<lambda>v.
     resolve (emptyData\<lparr>cid := Some v\<rparr>)))"
  by (simp add: PersonalApplet_getInfo_def lookup_default readIf_def andThen_assoc)

lemma getInfo_personal:
  "PersonalApplet_getInfo ext card' rc
     (Some [q_cid, q_name, q_nameEn, q_dob, q_gender, q_issuer, q_issueDate, q_expireDate,
            q_address, q_photo]) =
     andThen (initializeCard card') (\<lambda>_.
     andThen (extractCitizenId ext card' rc) (\<lambda>v1.
     andThen (extractThaiName ext card' rc) (\<lambda>v2.
     andThen (extractEnglishName ext card' rc) (\<lambda>v3.
     andThen (extractDateOfBirth ext card' rc) (\<lambda>v4.
     andThen (extractGender ext card' rc) (\<lambda>v5.
     andThen (extractIssuer ext card' rc) (\<lambda>v6.
     andThen (extractIssueDate ext card' rc) (\<lambda>v7.
     andThen (extractExpireDate ext card' rc) (\<lambda>v8.
     andThen (extractAddress ext card' rc) (\<lambda>v9.
     andThen (extractPhoto ext card' rc) (\<lambda>v10.
     resolve \<lparr>cid = Some v1, name = Some v2, nameEn = Some v3, dob = Some v4,
              gender = Some v5, issuer = Some v6, issueDate = Some v7,
              expireDate = Some v8, address = Some v9, photo = Some v10,
              nhso = None, laserId = None\<rparr>)))))))))))"
  by (simp add: PersonalApplet_getInfo_def lookup_personal readIf_def andThen_assoc
      emptyData_def)

lemma extractCitizenId_issued:
  "extractCitizenId ext card' rc w = (Inr v, w')
   \<Longrightarrow> issued w' = issued w @ [CMD_CID, rc @ [0x0d]]"
  by (auto simp: extractCitizenId_def andThen_Inr resolve_eq sliceLast_def CMD_CID_def
      dest!: getData_issued)

lemma initializeCard_issued:
  "initializeCard card' w = (Inr u, w')
   \<Longrightarrow> issued w' = issued w @ [person_SELECT @ THAI_CARD]"
  by (auto simp: initializeCard_def andThen_Inr resolve_eq issueCommand_def split: prod.splits)

text \<open>
  C7, as the code has it. Without a field list \<^verbatim>\<open>getInfo\<close> asks for \<^verbatim>\<open>['cid']\<close>: it
  selects the applet, reads the citizen id and returns a record with that one entry.
  Called with the ten personal fields, as the reader does, a resolved record has an
  entry for each of them.
\<close>

theorem getInfo_default_reads_cid_only:
  "PersonalApplet_getInfo ext card' rc None = PersonalApplet_getInfo ext card' rc (Some [q_cid])
   \<and> (PersonalApplet_getInfo ext card' rc None w = (Inr d, w')
        \<longrightarrow> cid d \<noteq> None \<and> name d = None \<and> nameEn d = None \<and> dob d = None
          \<and> gender d = None \<and> issuer d = None \<and> issueDate d = None \<and> expireDate d = None
          \<and> address d = None \<and> photo d = None
          \<and> issued w' = issued w @ [person_SELECT @ THAI_CARD, CMD_CID, rc @ [0x0d]])
   \<and> (PersonalApplet_getInfo ext card' rc
         (Some [q_cid, q_name, q_nameEn, q_dob, q_gender, q_issuer, q_issueDate,
                q_expireDate, q_address, q_photo]) w = (Inr d, w')
        \<longrightarrow> cid d \<noteq> None \<and> name d \<noteq> None \<and> nameEn d \<noteq> None \<and> dob d \<noteq> None
          \<and> gender d \<noteq> None \<and> issuer d \<noteq> None \<and> issueDate d \<noteq> None
          \<and> expireDate d \<noteq> None \<and> address d \<noteq> None \<and> photo d \<noteq> None)"
proof -
  have a: "PersonalApplet_getInfo ext card' rc None
           = PersonalApplet_getInfo ext card' rc (Some [q_cid])"
    by (simp only: getInfo_default getInfo_cid)
  have b: "cid d \<noteq> None \<and> name d = None \<and> nameEn d = None \<and> dob d = None
          \<and> gender d = None \<and> issuer d = None \<and> issueDate d = None \<and> expireDate d = None
          \<and> address d = None \<and> photo d = None
          \<and> issued w' = issued w @ [person_SELECT @ THAI_CARD, CMD_CID, rc @ [0x0d]]"
    if "PersonalApplet_getInfo ext card' rc None w = (Inr d, w')"
  proof -
    from that obtain u w1 v where
      i: "initializeCard card' w = (Inr u, w1)"
      and c: "extractCitizenId ext card' rc w1 = (Inr v, w')"
      and d: "d = emptyData\<lparr>cid := Some v\<rparr>"
      unfolding getInfo_default by (auto simp: andThen_Inr resolve_eq)
    from initializeCard_issued[OF i] extractCitizenId_issued[OF c] d
    show ?thesis by (simp add: emptyData_def)
  qed
  have c: "cid d \<noteq> None \<and> name d \<noteq> None \<and> nameEn d \<noteq> None \<and> dob d \<noteq> None
          \<and> gender d \<noteq> None \<and> issuer d \<noteq> None \<and> issueDate d \<noteq> None
          \<and> expireDate d \<noteq> None \<and> address d \<noteq> None \<and> photo d \<noteq> None"
    if "PersonalApplet_getInfo ext card' rc
         (Some [q_cid, q_name, q_nameEn, q_dob, q_gender, q_issuer, q_issueDate,
                q_expireDate, q_address, q_photo]) w = (Inr d, w')"
    using that unfolding getInfo_personal by (auto simp: andThen_Inr resolve_eq)
  from a b c show ?thesis by blast
qed

lemma yields_resolve: "yields (resolve v) v"
  by (simp add: yields_def resolve_def)

lemma yields_andThen: "yields m v \<Longrightarrow> yields (f v) v' \<Longrightarrow> yields (andThen m f) v'"
  unfolding yields_def andThen_def
proof
  fix w
  assume m: "\<forall>w. fst (m w) = Inr v" and f: "\<forall>w. fst (f v w) = Inr v'"
  obtain r w1 where mw: "m w = (r, w1)" by (cases "m w")
  with m have "r = Inr v" by (metis fst_conv)
  with mw f show "fst (case m w of (Inl e, w') \<Rightarrow> (Inl e, w') | (Inr x, w') \<Rightarrow> f x w') = Inr v'"
    by simp
qed

lemma yields_getData:
  assumes "length command = 13" and "length c = 7" and "length rc = 4"
  shows "yields (getData (rejecting command answer) c rc) answer"
proof -
  have "c \<noteq> command" using assms by auto
  moreover have "length (rc @ sliceLast c) = 5" using assms by (simp add: sliceLast_def)
  then have "rc @ sliceLast c \<noteq> command" using assms(1) by auto
  ultimately show ?thesis
    by (simp add: yields_def getData_def andThen_def issueCommand_def rejecting_def resolve_def)
qed

lemma trim_digits: "trim (ascii ''25680315'') = ascii ''25680315''"
  by (simp add: trim_def isWhiteSpace_def ascii_def)

lemma example_text:
  "bufferToString plainCollaborators (sliceEnd 2 exampleAnswer) = ascii ''25680315''"
  by (simp add: plainCollaborators_def sliceEnd_def exampleAnswer_def ascii_def)

lemma example_decode: "legacyDecode plainCollaborators b = b"
  by (simp add: plainCollaborators_def)

lemma example_date:
  "convertBuddhistToGregorianDate (ascii ''25680315'') = Inr (ascii ''2025-03-15'')"
  by (simp add: convertBuddhistToGregorianDate_def ascii_def slice_def parseInt_def
      trimStart_def isWhiteSpace_def isRadixDigit_def digitValue_def radixValue_def
      natToString.simps)

lemma example_name:
  "fullname (parseNameComponents plainCollaborators exampleAnswer) = ascii ''25680315''"
  unfolding parseNameComponents_def example_text trim_digits
  by (simp add: ascii_def elementAt_def trimOrEmpty_def trim_def isWhiteSpace_def)

lemma example_address:
  "fullAddress (parseAddressComponents (ascii ''25680315'')) = ascii ''25680315''"
  unfolding parseAddressComponents_def
  by (simp add: ascii_def trim_def isWhiteSpace_def Let_def)

lemma yields_liftResult: "yields (liftResult (Inr v)) v"
  by (simp add: yields_def liftResult_def)

lemma example_hex: "sliceEnd 4 (toHex exampleAnswer) = ascii ''3235363830333135''"
  by (simp add: sliceEnd_def toHex_def exampleAnswer_def hexDigit_def ascii_def)

lemma yields_readPhotoParts:
  assumes "length command = 13" and "length rc = 4" and "list_all (\<lambda>c. length c = 7) commands"
  shows "yields (readPhotoParts (rejecting command exampleAnswer) rc commands parts)
           (parts @ replicate (length commands) (ascii ''3235363830333135''))"
  using assms(3)
proof (induction commands arbitrary: parts)
  case Nil
  then show ?case by (simp add: yields_resolve)
next
  case (Cons c commands)
  then have c: "length c = 7" and r: "list_all (\<lambda>c. length c = 7) commands" by simp_all
  have "yields (readPhotoParts (rejecting command exampleAnswer) rc commands
                  (parts @ [sliceEnd 4 (toHex exampleAnswer)]))
          ((parts @ [sliceEnd 4 (toHex exampleAnswer)])
           @ replicate (length commands) (ascii ''3235363830333135''))"
    by (rule Cons.IH[OF r])
  then have "yields (readPhotoParts (rejecting command exampleAnswer) rc commands
                  (parts @ [sliceEnd 4 (toHex exampleAnswer)]))
          (parts @ replicate (length (c # commands)) (ascii ''3235363830333135''))"
    by (simp add: example_hex)
  then show ?case
    unfolding readPhotoParts.simps
    by (rule yields_andThen[OF yields_getData[OF assms(1) c assms(2)]])
qed

lemma photo_commands_length: "list_all (\<lambda>c. length c = 7) PHOTO_COMMANDS"
  by (simp add: PHOTO_COMMANDS_def CMD_PHOTO1_def CMD_PHOTO2_def CMD_PHOTO3_def CMD_PHOTO4_def
      CMD_PHOTO5_def CMD_PHOTO6_def CMD_PHOTO7_def CMD_PHOTO8_def CMD_PHOTO9_def
      CMD_PHOTO10_def CMD_PHOTO11_def CMD_PHOTO12_def CMD_PHOTO13_def CMD_PHOTO14_def
      CMD_PHOTO15_def CMD_PHOTO16_def CMD_PHOTO17_def CMD_PHOTO18_def CMD_PHOTO19_def
      CMD_PHOTO20_def)

lemma yields_extractPhoto:
  assumes "length command = 13" and "length rc = 4"
  shows "yields (extractPhoto plainCollaborators (rejecting command exampleAnswer) rc)
           (concat (replicate 20 (ascii ''3235363830333135'')))"
proof -
  have "length PHOTO_COMMANDS = 20" by (simp add: PHOTO_COMMANDS_def)
  with yields_readPhotoParts[OF assms photo_commands_length, of "[]"]
  have "yields (readPhotoParts (rejecting command exampleAnswer) rc PHOTO_COMMANDS [])
          (replicate 20 (ascii ''3235363830333135''))"
    by simp
  moreover have "yields (resolve (hex2imagebase64 plainCollaborators
                   (join [] (replicate 20 (ascii ''3235363830333135'')))))
                 (concat (replicate 20 (ascii ''3235363830333135'')))"
    by (simp add: join_empty plainCollaborators_def yields_resolve)
  ultimately show ?thesis unfolding extractPhoto_def Let_def by (rule yields_andThen)
qed

lemma yields_fields:
  assumes "length command = 13" and "length rc = 4"
  shows "yields (extractCitizenId plainCollaborators (rejecting command exampleAnswer) rc)
           (ascii ''25680315'')"
    and "yields (extractThaiName plainCollaborators (rejecting command exampleAnswer) rc)
           (ascii ''25680315'')"
    and "yields (extractEnglishName plainCollaborators (rejecting command exampleAnswer) rc)
           (ascii ''25680315'')"
    and "yields (extractDateOfBirth plainCollaborators (rejecting command exampleAnswer) rc)
           (ascii ''2025-03-15'')"
    and "yields (extractGender plainCollaborators (rejecting command exampleAnswer) rc)
           (ascii ''25680315'')"
    and "yields (extractIssuer plainCollaborators (rejecting command exampleAnswer) rc)
           (ascii ''25680315'')"
    and "yields (extractIssueDate plainCollaborators (rejecting command exampleAnswer) rc)
           (ascii ''2025-03-15'')"
    and "yields (extractExpireDate plainCollaborators (rejecting command exampleAnswer) rc)
           (ascii ''2025-03-15'')"
    and "yields (extractAddress plainCollaborators (rejecting command exampleAnswer) rc)
           (ascii ''25680315'')"
proof -
  have g: "yields (getData (rejecting command exampleAnswer) c rc) exampleAnswer"
    if "length c = 7" for c
    using yields_getData[OF assms(1) that assms(2)] .
  have l: "length CMD_CID = 7" "length CMD_THFULLNAME = 7" "length CMD_ENFULLNAME = 7"
    "length CMD_BIRTH = 7" "length CMD_GENDER = 7" "length CMD_ISSUER = 7"
    "length CMD_ISSUE = 7" "length CMD_EXPIRE = 7" "length CMD_ADDRESS = 7"
    by (simp_all add: CMD_CID_def CMD_THFULLNAME_def CMD_ENFULLNAME_def CMD_BIRTH_def
        CMD_GENDER_def CMD_ISSUER_def CMD_ISSUE_def CMD_EXPIRE_def CMD_ADDRESS_def)
  have n: "ascii ''25680315'' \<noteq> []" by (simp add: ascii_def)
  show "yields (extractCitizenId plainCollaborators (rejecting command exampleAnswer) rc)
           (ascii ''25680315'')"
    unfolding extractCitizenId_def
    by (rule yields_andThen[OF g[OF l(1)]]) (simp add: example_text trim_digits yields_resolve)
  show "yields (extractThaiName plainCollaborators (rejecting command exampleAnswer) rc)
           (ascii ''25680315'')"
    unfolding extractThaiName_def
    by (rule yields_andThen[OF g[OF l(2)]])
      (simp add: example_decode example_name yields_resolve)
  show "yields (extractEnglishName plainCollaborators (rejecting command exampleAnswer) rc)
           (ascii ''25680315'')"
    unfolding extractEnglishName_def
    by (rule yields_andThen[OF g[OF l(3)]])
      (simp add: example_decode example_name yields_resolve)
  show "yields (extractDateOfBirth plainCollaborators (rejecting command exampleAnswer) rc)
           (ascii ''2025-03-15'')"
    unfolding extractDateOfBirth_def
    by (rule yields_andThen[OF g[OF l(4)]])
      (simp add: example_text trim_digits example_date yields_liftResult)
  show "yields (extractGender plainCollaborators (rejecting command exampleAnswer) rc)
           (ascii ''25680315'')"
    unfolding extractGender_def
    by (rule yields_andThen[OF g[OF l(5)]]) (simp add: example_text trim_digits yields_resolve)
  show "yields (extractIssuer plainCollaborators (rejecting command exampleAnswer) rc)
           (ascii ''25680315'')"
    unfolding extractIssuer_def
    by (rule yields_andThen[OF g[OF l(6)]])
      (simp add: example_decode example_text trim_digits yields_resolve)
  show "yields (extractIssueDate plainCollaborators (rejecting command exampleAnswer) rc)
           (ascii ''2025-03-15'')"
    unfolding extractIssueDate_def
    by (rule yields_andThen[OF g[OF l(7)]])
      (simp add: example_text trim_digits example_date yields_liftResult)
  show "yields (extractExpireDate plainCollaborators (rejecting command exampleAnswer) rc)
           (ascii ''2025-03-15'')"
    unfolding extractExpireDate_def
    by (rule yields_andThen[OF g[OF l(8)]])
      (simp add: example_text trim_digits example_date yields_liftResult)
  show "yields (extractAddress plainCollaborators (rejecting command exampleAnswer) rc)
           (ascii ''25680315'')"
    unfolding extractAddress_def
    by (rule yields_andThen[OF g[OF l(9)]])
      (simp add: example_decode example_text trim_digits example_address n yields_resolve
        Let_def)
qed

lemma yields_initializeCard:
  assumes "command \<noteq> person_SELECT @ THAI_CARD"
  shows "yields (initializeCard (rejecting command exampleAnswer)) ()"
  using assms
  by (simp add: yields_def initializeCard_def andThen_def issueCommand_def rejecting_def
      resolve_def)

lemma yields_getInfo:
  assumes "length command = 13" and "length rc = 4"
    and "command \<noteq> person_SELECT @ THAI_CARD"
  shows "yields (PersonalApplet_getInfo plainCollaborators (rejecting command exampleAnswer) rc
                   (Some tenFields)) examplePersonal"
  unfolding tenFields_def getInfo_personal examplePersonal_def
  by (intro yields_andThen[OF yields_initializeCard[OF assms(3)]]
      yields_andThen[OF yields_fields(1)[OF assms(1,2)]]
      yields_andThen[OF yields_fields(2)[OF assms(1,2)]]
      yields_andThen[OF yields_fields(3)[OF assms(1,2)]]
      yields_andThen[OF yields_fields(4)[OF assms(1,2)]]
      yields_andThen[OF yields_fields(5)[OF assms(1,2)]]
      yields_andThen[OF yields_fields(6)[OF assms(1,2)]]
      yields_andThen[OF yields_fields(7)[OF assms(1,2)]]
      yields_andThen[OF yields_fields(8)[OF assms(1,2)]]
      yields_andThen[OF yields_fields(9)[OF assms(1,2)]]
      yields_andThen[OF yields_extractPhoto[OF assms(1,2)]]
      yields_resolve)

lemma nhso_SELECT_length: "length nhso_SELECT = 13" "nhso_SELECT \<noteq> person_SELECT @ THAI_CARD"
  by (simp_all add: nhso_SELECT_def person_SELECT_def THAI_CARD_def)

lemma default_getInfo_run:
  "PersonalApplet_getInfo plainCollaborators (rejecting nhso_SELECT exampleAnswer)
     [0x00, 0xc0, 0x00, 0x00] None freshWorld
   = (Inr (emptyData\<lparr>cid := Some (ascii ''25680315'')\<rparr>),
      \<lparr>cardState = (),
       issued = [person_SELECT @ THAI_CARD, CMD_CID, [0x00, 0xc0, 0x00, 0x00, 0x0d]]\<rparr>)"
proof -
  have "CMD_CID \<noteq> nhso_SELECT" "[0x00, 0xc0, 0x00, 0x00, 0x0d] \<noteq> nhso_SELECT"
    "sliceLast CMD_CID = [0x0d]"
    by (simp_all add: CMD_CID_def nhso_SELECT_def sliceLast_def)
  then show ?thesis
    unfolding getInfo_default
    by (simp add: andThen_def initializeCard_def issueCommand_def rejecting_def resolve_def
        nhso_SELECT_length(2)[symmetric] extractCitizenId_def getData_def freshWorld_def
        example_text trim_digits)
qed

text \<open>
  C7 as stated fails: the default call on a card that answers every personal command
  returns the citizen id alone, with no name and no photo.
\<close>

theorem getInfo_default_omits_other_fields:
  "PersonalApplet_getInfo plainCollaborators (rejecting nhso_SELECT exampleAnswer)
     [0x00, 0xc0, 0x00, 0x00] None freshWorld
   = (Inr (emptyData\<lparr>cid := Some (ascii ''25680315'')\<rparr>),
      \<lparr>cardState = (),
       issued = [person_SELECT @ THAI_CARD, CMD_CID, [0x00, 0xc0, 0x00, 0x00, 0x0d]]\<rparr>)
   \<and> name (emptyData\<lparr>cid := Some (ascii ''25680315'')\<rparr>) = None
   \<and> photo (emptyData\<lparr>cid := Some (ascii ''25680315'')\<rparr>) = None"
  using default_getInfo_run by (simp add: emptyData_def)

theorem getInfo_default_reads_cid_only_witness:
  "issued (snd (PersonalApplet_getInfo plainCollaborators (rejecting nhso_SELECT exampleAnswer)
                  [0x00, 0xc0, 0x00, 0x00] None freshWorld))
     = [person_SELECT @ THAI_CARD, CMD_CID, [0x00, 0xc0, 0x00, 0x00, 0x0d]]
   \<and> fst (PersonalApplet_getInfo plainCollaborators (rejecting nhso_SELECT exampleAnswer)
              [0x00, 0xc0, 0x00, 0x00] (Some tenFields) freshWorld) = Inr examplePersonal
   \<and> photo examplePersonal \<noteq> None"
proof -
  let ?card = "rejecting nhso_SELECT exampleAnswer"
  let ?rc = "[0x00, 0xc0, 0x00, 0x00] :: byte list"
  let ?all = "PersonalApplet_getInfo plainCollaborators ?card ?rc (Some tenFields) freshWorld"
  have y: "fst ?all = Inr examplePersonal"
    using yields_getInfo[of nhso_SELECT ?rc] nhso_SELECT_length by (simp add: yields_def)
  then have run: "PersonalApplet_getInfo plainCollaborators ?card ?rc
         (Some [q_cid, q_name, q_nameEn, q_dob, q_gender, q_issuer, q_issueDate,
                q_expireDate, q_address, q_photo]) freshWorld = (Inr examplePersonal, snd ?all)"
    unfolding tenFields_def by (metis prod.collapse)
  note t = getInfo_default_reads_cid_only[of plainCollaborators ?card ?rc]
  from t[of freshWorld "emptyData\<lparr>cid := Some (ascii ''25680315'')\<rparr>"
        "\<lparr>cardState = (),
          issued = [person_SELECT @ THAI_CARD, CMD_CID, [0x00, 0xc0, 0x00, 0x00, 0x0d]]\<rparr>"]
    default_getInfo_run
  have a: "issued (snd (PersonalApplet_getInfo plainCollaborators ?card ?rc None freshWorld))
           = [person_SELECT @ THAI_CARD, CMD_CID, [0x00, 0xc0, 0x00, 0x00, 0x0d]]"
    by (simp add: freshWorld_def)
  from t[of freshWorld examplePersonal "snd ?all"] run
  have b: "photo examplePersonal \<noteq> None" by blast
  from a y b show ?thesis by blast
qed

section \<open>The read cycle: proofs\<close>

lemma extractHealthData_rejected:
  "NhsoApplet_getInfo ext (issue c) rc w = (Inl e, w')
   \<Longrightarrow> extractHealthData ext c rc d w = (Inr d, w')"
  by (simp add: extractHealthData_def tryCatch_def andThen_def resolve_def)

lemma extractHealthData_total:
  "\<exists>d' w'. extractHealthData ext c rc d w = (Inr d', w')"
  by (auto simp: extractHealthData_def tryCatch_def andThen_def resolve_def
      split: prod.splits sum.splits)

lemma extractLaserData_rejected:
  "getLaser ext (issue c) rc w = (Inl e, w')
   \<Longrightarrow> extractLaserData ext c rc d w = (Inr (d\<lparr>laserId := Some []\<rparr>), w')"
  by (simp add: extractLaserData_def tryCatch_def andThen_def resolve_def)

lemma extractLaserData_total:
  "\<exists>l w'. extractLaserData ext c rc d w = (Inr (d\<lparr>laserId := Some l\<rparr>), w')"
  by (auto simp: extractLaserData_def tryCatch_def andThen_def resolve_def
      split: prod.splits sum.splits)

lemma personal_fields_only:
  assumes "extractPersonalData ext c rc emptyData w = (Inr d, w')"
  shows "nhso d = None \<and> laserId d = None"
proof -
  have f: "filter (\<lambda>field. field \<noteq> q_nhso \<and> field \<noteq> q_laserId) ALL_FIELDS
           = [q_cid, q_name, q_nameEn, q_dob, q_gender, q_issuer, q_issueDate, q_expireDate,
              q_address, q_photo]"
    by (simp add: ALL_FIELDS_def)
  from assms obtain p where
    "PersonalApplet_getInfo ext (issue c) rc
       (Some [q_cid, q_name, q_nameEn, q_dob, q_gender, q_issuer, q_issueDate, q_expireDate,
              q_address, q_photo]) w = (Inr p, w')"
    and d: "d = spread emptyData p"
    unfolding extractPersonalData_def f
    by (auto simp: tryCatch_def andThen_def resolve_def reject_def Let_def
        split: prod.splits sum.splits)
  then have "nhso p = None \<and> laserId p = None"
    unfolding getInfo_personal by (auto simp: andThen_Inr resolve_eq)
  then show ?thesis unfolding d by (simp add: spread_def orElse_def emptyData_def)
qed

text \<open>
  C4. In a read cycle: when the personal data extraction throws, the cycle emits one
  \<^verbatim>\<open>card-error\<close> notification with status 500 and no \<^verbatim>\<open>card-data\<close>; when the personal
  data is read and the insurance applet's \<^verbatim>\<open>getInfo\<close> throws, \<^verbatim>\<open>card-data\<close> is emitted with
  the personal record, a laser id and no \<^verbatim>\<open>nhso\<close> entry; when the personal data is read and
  only \<^verbatim>\<open>getLaser\<close> throws, \<^verbatim>\<open>card-data\<close> is emitted with the empty string as laser id.
\<close>

theorem read_cycle_failure_policy:
  "(extractPersonalData ext c (determineRequestCommand c) emptyData (cycleStart c) = (Inl e, w1)
      \<longrightarrow> emitted (processCardData ext c r)
            = emitted r
              @ [\<lparr>event = card_error, status = 500, description = ascii ''Card Read Error'',
                  payload = Failure
                    (ascii ''Failed to read Thai National ID Card: '' @ errorMessage e) e\<rparr>]
          \<and> emittedCount card_data (processCardData ext c r) = emittedCount card_data r)
   \<and> (extractPersonalData ext c (determineRequestCommand c) emptyData (cycleStart c)
         = (Inr d1, w1)
       \<and> NhsoApplet_getInfo ext (issue c) (determineRequestCommand c) w1 = (Inl e, w2)
      \<longrightarrow> (\<exists>l. emitted (processCardData ext c r)
                 = emitted r
                   @ [\<lparr>event = card_data, status = 200,
                       description = ascii ''Data Read Successfully'',
                       payload = Data (d1\<lparr>laserId := Some l\<rparr>)\<rparr>])
          \<and> nhso d1 = None)
   \<and> (extractPersonalData ext c (determineRequestCommand c) emptyData (cycleStart c)
         = (Inr d1, w1)
       \<and> extractHealthData ext c (determineRequestCommand c) d1 w1 = (Inr d2, w2)
       \<and> getLaser ext (issue c) (determineRequestCommand c) w2 = (Inl e, w3)
      \<longrightarrow> emitted (processCardData ext c r)
            = emitted r
              @ [\<lparr>event = card_data, status = 200,
                  description = ascii ''Data Read Successfully'',
                  payload = Data (d2\<lparr>laserId := Some []\<rparr>)\<rparr>])"
proof -
  let ?rc = "determineRequestCommand c"
  let ?personal = "extractPersonalData ext c ?rc emptyData (cycleStart c)"
  have a: "emitted (processCardData ext c r)
            = emitted r
              @ [\<lparr>event = card_error, status = 500, description = ascii ''Card Read Error'',
                  payload = Failure
                    (ascii ''Failed to read Thai National ID Card: '' @ errorMessage e) e\<rparr>]
          \<and> emittedCount card_data (processCardData ext c r) = emittedCount card_data r"
    if p: "?personal = (Inl e, w1)"
  proof -
    obtain m where e: "e = Error m" using personal_failure_is_Error[OF p] by blast
    have "processCardData ext c r = handleReadError e r"
      by (simp add: processCardData_def personal_failure_aborts[OF p])
    then show ?thesis
      by (simp add: handleReadError_def Let_def emit_def e emittedCount_def)
  qed
  have b: "(\<exists>l. emitted (processCardData ext c r)
                 = emitted r
                   @ [\<lparr>event = card_data, status = 200,
                       description = ascii ''Data Read Successfully'',
                       payload = Data (d1\<lparr>laserId := Some l\<rparr>)\<rparr>])
          \<and> nhso d1 = None"
    if p: "?personal = (Inr d1, w1)"
      and h: "NhsoApplet_getInfo ext (issue c) ?rc w1 = (Inl e, w2)"
  proof -
    obtain l w3 where l: "extractLaserData ext c ?rc d1 w2 = (Inr (d1\<lparr>laserId := Some l\<rparr>), w3)"
      using extractLaserData_total by blast
    have "extractCardData ext c (cycleStart c) = (Inr (d1\<lparr>laserId := Some l\<rparr>), w3)"
      by (simp add: extractCardData_def Let_def andThen_def p
          extractHealthData_rejected[OF h] l resolve_def)
    then have "emitted (processCardData ext c r)
                 = emitted r
                   @ [\<lparr>event = card_data, status = 200,
                       description = ascii ''Data Read Successfully'',
                       payload = Data (d1\<lparr>laserId := Some l\<rparr>)\<rparr>]"
      by (simp add: processCardData_def emit_def)
    with personal_fields_only[OF p] show ?thesis by blast
  qed
  have c: "emitted (processCardData ext c r)
            = emitted r
              @ [\<lparr>event = card_data, status = 200,
                  description = ascii ''Data Read Successfully'',
                  payload = Data (d2\<lparr>laserId := Some []\<rparr>)\<rparr>]"
    if p: "?personal = (Inr d1, w1)"
      and h: "extractHealthData ext c ?rc d1 w1 = (Inr d2, w2)"
      and g: "getLaser ext (issue c) ?rc w2 = (Inl e, w3)"
  proof -
    have "extractCardData ext c (cycleStart c) = (Inr (d2\<lparr>laserId := Some []\<rparr>), w3)"
      by (simp add: extractCardData_def Let_def andThen_def p h
          extractLaserData_rejected[OF g] resolve_def)
    then show ?thesis by (simp add: processCardData_def emit_def)
  qed
  from a b c show ?thesis by blast
qed

lemma yields_tryCatch: "yields m v \<Longrightarrow> yields (tryCatch m h) v"
  unfolding yields_def tryCatch_def
proof
  fix w
  assume m: "\<forall>w. fst (m w) = Inr v"
  obtain r w1 where mw: "m w = (r, w1)" by (cases "m w")
  with m have "r = Inr v" by (metis fst_conv)
  with mw show "fst (case m w of (Inl e, w') \<Rightarrow> h e w' | (Inr x, w') \<Rightarrow> (Inr x, w')) = Inr v"
    by simp
qed

lemma cardRejecting_prefix: "determineRequestCommand (cardRejecting command) = [0x00, 0xc0, 0x00, 0x00]"
  by (simp add: cardRejecting_def thaiCardAtr_def determineRequestCommand_def slice_def toHex_def
      hexDigit_def)

lemma cardRejecting_personal:
  assumes "length command = 13" and "command \<noteq> person_SELECT @ THAI_CARD"
  shows "fst (extractPersonalData plainCollaborators (cardRejecting command)
                (determineRequestCommand (cardRejecting command)) emptyData w)
         = Inr examplePersonal"
proof -
  have f: "filter (\<lambda>field. field \<noteq> q_nhso \<and> field \<noteq> q_laserId) ALL_FIELDS = tenFields"
    by (simp add: ALL_FIELDS_def tenFields_def)
  have t: "length tenFields > 0" by (simp add: tenFields_def)
  have s: "spread emptyData examplePersonal = examplePersonal"
    by (simp add: spread_def orElse_def emptyData_def examplePersonal_def)
  have "yields (PersonalApplet_getInfo plainCollaborators (rejecting command exampleAnswer)
                  [0x00, 0xc0, 0x00, 0x00] (Some tenFields)) examplePersonal"
    by (rule yields_getInfo[OF assms(1) _ assms(2)]) simp
  then have "yields (andThen (PersonalApplet_getInfo plainCollaborators
                       (rejecting command exampleAnswer) [0x00, 0xc0, 0x00, 0x00]
                       (Some tenFields))
                     (\<lambda>personalData. resolve (spread emptyData personalData)))
               examplePersonal"
    by (rule yields_andThen) (simp add: s yields_resolve)
  then have "yields (extractPersonalData plainCollaborators (cardRejecting command)
                [0x00, 0xc0, 0x00, 0x00] emptyData) examplePersonal"
    unfolding extractPersonalData_def f Let_def using t
    by (simp add: yields_tryCatch cardRejecting_def)
  then show ?thesis unfolding cardRejecting_prefix yields_def by blast
qed

lemma insurance_selection_rejected:
  "NhsoApplet_getInfo ext (rejecting nhso_SELECT answer) rc w
   = (Inl (Error (ascii ''Failed to read NHSO data: Transmit failed'')),
      w\<lparr>issued := issued w @ [nhso_SELECT]\<rparr>)"
  by (simp add: NhsoApplet_getInfo_def tryCatch_def andThen_def initializeNhsoCard_def
      issueCommand_def rejecting_def reject_def ascii_def)

lemma laser_selection_rejected:
  "getLaser ext (rejecting laserAppletSelect answer) rc w
   = (Inl (Error (ascii ''Transmit failed'')), w\<lparr>issued := issued w @ [laserAppletSelect]\<rparr>)"
  by (simp add: getLaser_def andThen_def issueCommand_def rejecting_def laserAppletSelect_def)

theorem read_cycle_failure_policy_witness:
  "map event (emitted (processCardData plainCollaborators deadCard (construct None)))
     = [card_error]
   \<and> map status (emitted (processCardData plainCollaborators deadCard (construct None)))
     = [500]
   \<and> (\<exists>l. map payload (emitted (processCardData plainCollaborators (cardRejecting nhso_SELECT)
                                   (construct None)))
          = [Data (examplePersonal\<lparr>laserId := Some l\<rparr>)])
   \<and> nhso examplePersonal = None
   \<and> (\<exists>d. map payload (emitted (processCardData plainCollaborators
                                   (cardRejecting laserAppletSelect) (construct None)))
          = [Data d] \<and> laserId d = Some [])"
proof -
  let ?r = "construct None"
  have em: "emitted ?r = []" by (simp add: construct_def)
  \<comment> \<open>the personal read fails\<close>
  note t1 = read_cycle_failure_policy[where ext = plainCollaborators and c = deadCard
      and e = "Error (ascii ''Personal data extraction failed: Card was reset'')"
      and ?w1.0 = "\<lparr>cardState = (), issued = [person_SELECT @ THAI_CARD]\<rparr>" and r = ?r]
  from t1 deadCard_personal
  have "emitted (processCardData plainCollaborators deadCard ?r)
        = emitted ?r
          @ [\<lparr>event = card_error, status = 500, description = ascii ''Card Read Error'',
              payload = Failure
                (ascii ''Failed to read Thai National ID Card: ''
                 @ errorMessage (Error (ascii ''Personal data extraction failed: Card was reset'')))
                (Error (ascii ''Personal data extraction failed: Card was reset''))\<rparr>]"
    by blast
  then have a: "map event (emitted (processCardData plainCollaborators deadCard ?r)) = [card_error]"
    "map status (emitted (processCardData plainCollaborators deadCard ?r)) = [500]"
    unfolding em by simp_all
  \<comment> \<open>only the insurance read fails\<close>
  let ?c = "cardRejecting nhso_SELECT :: unit cardHandle"
  let ?p = "extractPersonalData plainCollaborators ?c (determineRequestCommand ?c) emptyData
              (cycleStart ?c)"
  have p: "?p = (Inr examplePersonal, snd ?p)"
    using cardRejecting_personal[OF nhso_SELECT_length, of "cycleStart ?c"]
    by (metis prod.collapse)
  have h: "NhsoApplet_getInfo plainCollaborators (issue ?c) (determineRequestCommand ?c) (snd ?p)
           = (Inl (Error (ascii ''Failed to read NHSO data: Transmit failed'')),
              (snd ?p)\<lparr>issued := issued (snd ?p) @ [nhso_SELECT]\<rparr>)"
    unfolding cardRejecting_def by (simp add: insurance_selection_rejected)
  note t2 = read_cycle_failure_policy[where ext = plainCollaborators and c = ?c and r = ?r
      and ?d1.0 = examplePersonal and ?w1.0 = "snd ?p"
      and e = "Error (ascii ''Failed to read NHSO data: Transmit failed'')"
      and ?w2.0 = "(snd ?p)\<lparr>issued := issued (snd ?p) @ [nhso_SELECT]\<rparr>"]
  from t2 p h
  have "(\<exists>l. emitted (processCardData plainCollaborators ?c ?r)
                 = emitted ?r
                   @ [\<lparr>event = card_data, status = 200,
                       description = ascii ''Data Read Successfully'',
                       payload = Data (examplePersonal\<lparr>laserId := Some l\<rparr>)\<rparr>])
        \<and> nhso examplePersonal = None"
    by blast
  then have b: "\<exists>l. map payload (emitted (processCardData plainCollaborators ?c ?r))
                   = [Data (examplePersonal\<lparr>laserId := Some l\<rparr>)]"
    and b': "nhso examplePersonal = None"
    unfolding em by auto
  \<comment> \<open>only the laser id read fails\<close>
  let ?c = "cardRejecting laserAppletSelect :: unit cardHandle"
  let ?p = "extractPersonalData plainCollaborators ?c (determineRequestCommand ?c) emptyData
              (cycleStart ?c)"
  have ll: "length laserAppletSelect = 13" "laserAppletSelect \<noteq> person_SELECT @ THAI_CARD"
    by (simp_all add: laserAppletSelect_def person_SELECT_def THAI_CARD_def)
  have p: "?p = (Inr examplePersonal, snd ?p)"
    using cardRejecting_personal[OF ll, of "cycleStart ?c"] by (metis prod.collapse)
  obtain d2 w2 where
    h: "extractHealthData plainCollaborators ?c (determineRequestCommand ?c) examplePersonal
          (snd ?p) = (Inr d2, w2)"
    using extractHealthData_total by blast
  have g: "getLaser plainCollaborators (issue ?c) (determineRequestCommand ?c) w2
           = (Inl (Error (ascii ''Transmit failed'')),
              w2\<lparr>issued := issued w2 @ [laserAppletSelect]\<rparr>)"
    unfolding cardRejecting_def by (simp add: laser_selection_rejected)
  note t3 = read_cycle_failure_policy[where ext = plainCollaborators and c = ?c and r = ?r
      and ?d1.0 = examplePersonal and ?w1.0 = "snd ?p"
      and e = "Error (ascii ''Transmit failed'')" and ?d2.0 = d2 and ?w2.0 = w2
      and ?w3.0 = "w2\<lparr>issued := issued w2 @ [laserAppletSelect]\<rparr>"]
  from t3 p h g
  have "emitted (processCardData plainCollaborators ?c ?r)
            = emitted ?r
              @ [\<lparr>event = card_data, status = 200,
                  description = ascii ''Data Read Successfully'',
                  payload = Data (d2\<lparr>laserId := Some []\<rparr>)\<rparr>]"
    by blast
  then have "map payload (emitted (processCardData plainCollaborators ?c ?r))
             = [Data (d2\<lparr>laserId := Some []\<rparr>)]
             \<and> laserId (d2\<lparr>laserId := Some []\<rparr>) = Some []"
    unfolding em by simp
  then have c: "\<exists>d. map payload (emitted (processCardData plainCollaborators ?c ?r)) = [Data d]
                   \<and> laserId d = Some []"
    by (rule exI[where x = "d2\<lparr>laserId := Some []\<rparr>"])
  from a b b' c show ?thesis by blast
qed

end
